theory Spec2Isabelle
  imports Complex_Main "HOL-Library.Sublist"
begin

section \<open>The capability matching pipeline and its explanations\<close>

text \<open>
  A shallow embedding of \<^verbatim>\<open>substrate/shared/models/core.py\<close>,
  \<^verbatim>\<open>substrate/cloud/matching/engine.py\<close> (class \<^verbatim>\<open>CapabilityMatcher\<close>),
  \<^verbatim>\<open>substrate/cloud/matching/semantic_engine.py\<close> (the scoring of class
  \<^verbatim>\<open>SemanticMatcher\<close>) and of the confidence interval of
  \<^verbatim>\<open>substrate/cloud/transparency/engine.py\<close>.

  Conventions of the embedding:
  \<^item> a Python \<^verbatim>\<open>float\<close> is a \<^typ>\<open>real\<close>: arithmetic is exact and rounding is not
    modelled; \<^verbatim>\<open>nan\<close> appears only where the code can produce it from valid
    numbers, as a result of its own;
  \<^item> a Python \<^verbatim>\<open>str\<close> is a \<^typ>\<open>string\<close>; \<^verbatim>\<open>lower()\<close> and \<^verbatim>\<open>split()\<close>
    are modelled on ASCII;
  \<^item> a \<^verbatim>\<open>Set[str]\<close> field is the list of its elements in the order in which the
    interpreter iterates it (no duplicates); a set built while the program runs is a
    HOL set, and the order in which it is iterated is given by the interpreter;
  \<^item> a \<^verbatim>\<open>Dict[str, Any]\<close> is an association list of \<^verbatim>\<open>Any\<close> values;
  \<^item> a leading underscore of a method name is dropped, and a field name shared by two
    classes carries the class as a prefix.
\<close>

subsection \<open>Values of type Any, strings\<close>

datatype pyval =
  PNone | PBool bool | PInt int | PFloat real | PStr string | PList "pyval list"

text \<open>Python's truth value of an object.\<close>

fun truthy :: "pyval \<Rightarrow> bool" where
  "truthy PNone = False"
| "truthy (PBool b) = b"
| "truthy (PInt i) = (i \<noteq> 0)"
| "truthy (PFloat x) = (x \<noteq> 0)"
| "truthy (PStr s) = (s \<noteq> [])"
| "truthy (PList vs) = (vs \<noteq> [])"

type_synonym pydict = "(string \<times> pyval) list"

text \<open>\<^verbatim>\<open>d.get(k)\<close>: the value, or \<^verbatim>\<open>None\<close>.\<close>

definition dict_get :: "pydict \<Rightarrow> string \<Rightarrow> pyval" where
  "dict_get d k = (case map_of d k of None \<Rightarrow> PNone | Some v \<Rightarrow> v)"

definition lower_char :: "char \<Rightarrow> char" where
  "lower_char c =
     (case map_of (zip ''ABCDEFGHIJKLMNOPQRSTUVWXYZ'' ''abcdefghijklmnopqrstuvwxyz'') c of
        None \<Rightarrow> c | Some d \<Rightarrow> d)"

definition lower :: "string \<Rightarrow> string" where
  "lower s = map lower_char s"

text \<open>The ASCII characters for which \<^verbatim>\<open>str.isspace\<close> holds.\<close>

definition is_space :: "char \<Rightarrow> bool" where
  "is_space c = (c \<in> set [CHR 0x09, CHR 0x0A, CHR 0x0B, CHR 0x0C, CHR 0x0D,
                            CHR 0x1C, CHR 0x1D, CHR 0x1E, CHR 0x1F, CHR 0x20])"

text \<open>
  \<^verbatim>\<open>s.split()\<close>: the maximal runs of non-space characters. The first argument is
  the token being read.
\<close>

fun split_from :: "string \<Rightarrow> string \<Rightarrow> string list" where
  "split_from cur [] = (if cur = [] then [] else [cur])"
| "split_from cur (c # cs) =
     (if is_space c
      then (if cur = [] then split_from [] cs else cur # split_from [] cs)
      else split_from (cur @ [c]) cs)"

definition split :: "string \<Rightarrow> string list" where
  "split s = split_from [] s"

text \<open>\<^verbatim>\<open>sep.join(xs)\<close>.\<close>

fun join :: "string \<Rightarrow> string list \<Rightarrow> string" where
  "join sep [] = []"
| "join sep [x] = x"
| "join sep (x # y # ys) = x @ sep @ join sep (y # ys)"

text \<open>\<^verbatim>\<open>str(n)\<close> for a length or a count.\<close>

definition digit :: "nat \<Rightarrow> char" where
  "digit d = ''0123456789'' ! d"

function str_nat :: "nat \<Rightarrow> string" where
  "str_nat n = (if n < 10 then [digit n] else str_nat (n div 10) @ [digit (n mod 10)])"
  by pat_completeness auto
termination
  by (relation "measure id") auto

subsection \<open>The data model (core.py)\<close>

datatype PrivacyLevel = PUBLIC | NETWORK_ONLY | PRIVATE | CONFIDENTIAL

datatype CapabilityType = SKILL | RESOURCE | KNOWLEDGE | NETWORK | TIME | FUNDING

text \<open>The \<^verbatim>\<open>.value\<close> of a member of the enum.\<close>

fun value_of :: "CapabilityType \<Rightarrow> string" where
  "value_of SKILL = ''skill''"
| "value_of RESOURCE = ''resource''"
| "value_of KNOWLEDGE = ''knowledge''"
| "value_of NETWORK = ''network''"
| "value_of TIME = ''time''"
| "value_of FUNDING = ''funding''"

datatype ProblemDomain =
  ROBOTICS | RESEARCH | SOFTWARE | HARDWARE | BIOLOGY | CLIMATE | HEALTH | EDUCATION
| MANUFACTURING | OTHER

record Capability =
  capability_id :: string
  cap_type :: CapabilityType
  cap_name :: string
  cap_description :: string
  proficiency :: real
  cap_confidence :: real
  cap_evidence :: "string list"
  privacy_level :: PrivacyLevel
  cap_tags :: "string list"
  cap_metadata :: pydict

record Need =
  need_id :: string
  need_type :: CapabilityType
  need_name :: string
  need_description :: string
  urgency :: real
  importance :: real
  need_domain :: ProblemDomain
  need_context :: string
  constraints :: pydict
  need_tags :: "string list"

record UserProfile =
  user_id :: string
  capabilities :: "Capability list"
  needs :: "Need list"
  domains :: "ProblemDomain list"
  location_region :: "string option"
  timezone :: "string option"
  availability :: pydict
  preferences :: pydict
  profile_created_at :: nat
  profile_updated_at :: nat

record ProvenanceStep =
  step_id :: string
  timestamp :: nat
  operation :: string
  inputs :: pydict
  outputs :: pydict
  reasoning :: string
  step_confidence :: real
  alternatives_considered :: "pydict list"

record ProvenanceGraph =
  graph_id :: string
  decision_type :: string
  steps :: "ProvenanceStep list"
  graph_created_at :: nat
  graph_metadata :: pydict

record Match =
  match_id :: string
  need :: Need
  need_user_id :: string
  capability :: Capability
  capability_user_id :: string
  match_score :: real
  complementarity_score :: real
  feasibility_score :: real
  provenance :: ProvenanceGraph
  match_confidence :: real
  uncertainty_factors :: "string list"
  evidence :: "string list"
  similar_past_matches :: "string list"
  verification_methods :: "string list"
  match_created_at :: nat

subsection \<open>What the interpreter provides\<close>

text \<open>
  Every object of the data model is built with \<^verbatim>\<open>str(uuid4())\<close> as its identifier
  and \<^verbatim>\<open>datetime.now()\<close> as its time of creation. The \<open>k\<close>-th object built by
  the process receives \<open>uuid4 py k\<close> and \<open>now py k\<close>; the functions below that build
  objects take the number of objects built so far and return it advanced.
  \<open>set_order\<close> is the order in which the interpreter iterates a set built at run time,
  \<open>format_2f\<close> the rendering of a float by the format \<^verbatim>\<open>:.2f\<close>.
\<close>

record interpreter =
  uuid4 :: "nat \<Rightarrow> string"
  now :: "nat \<Rightarrow> nat"
  set_order :: "string set \<Rightarrow> string list"
  format_2f :: "real \<Rightarrow> string"

text \<open>\<^verbatim>\<open>ProvenanceStep(operation=..., inputs=..., outputs=..., reasoning=..., confidence=...)\<close>\<close>

definition new_step ::
  "interpreter \<Rightarrow> nat \<Rightarrow> string \<Rightarrow> pydict \<Rightarrow> pydict \<Rightarrow> string \<Rightarrow> real \<Rightarrow> ProvenanceStep" where
  "new_step py k op ins outs why conf =
     \<lparr>step_id = uuid4 py k, timestamp = now py k, operation = op, inputs = ins,
      outputs = outs, reasoning = why, step_confidence = conf,
      alternatives_considered = []\<rparr>"

text \<open>\<^verbatim>\<open>TransparencyEngine.create_provenance_graph\<close>\<close>

definition create_provenance_graph :: "interpreter \<Rightarrow> nat \<Rightarrow> string \<Rightarrow> ProvenanceGraph" where
  "create_provenance_graph py k dt =
     \<lparr>graph_id = uuid4 py k, decision_type = dt, steps = [], graph_created_at = now py k,
      graph_metadata = []\<rparr>"

text \<open>\<^verbatim>\<open>ProvenanceGraph.add_step\<close>\<close>

definition add_step :: "ProvenanceStep \<Rightarrow> ProvenanceGraph \<Rightarrow> ProvenanceGraph" where
  "add_step st g = g\<lparr>steps := steps g @ [st]\<rparr>"

subsection \<open>The matcher (matching/engine.py)\<close>

record MatchingConfig =
  min_match_score :: real
  max_matches_per_need :: int
  include_provenance :: bool
  weight_complementarity :: real
  weight_proficiency :: real
  weight_feasibility :: real

definition default_config :: MatchingConfig where
  "default_config =
     \<lparr>min_match_score = 0.4, max_matches_per_need = 10, include_provenance = True,
      weight_complementarity = 0.4, weight_proficiency = 0.3, weight_feasibility = 0.3\<rparr>"

type_synonym posting = "UserProfile \<times> Capability"

text \<open>
  The fields of a \<^verbatim>\<open>CapabilityMatcher\<close>. Its \<^verbatim>\<open>transparency\<close> engine holds two
  constant templates only and is left out.
\<close>

record CapabilityMatcher =
  config :: MatchingConfig
  capability_index :: "string \<rightharpoonup> posting list"
  match_history :: "Match list"
  success_patterns :: "string \<rightharpoonup> real"

text \<open>\<^verbatim>\<open>CapabilityMatcher(config)\<close>\<close>

definition new_matcher :: "MatchingConfig \<Rightarrow> CapabilityMatcher" where
  "new_matcher cfg =
     \<lparr>config = cfg, capability_index = Map.empty, match_history = [],
      success_patterns = Map.empty\<rparr>"

text \<open>\<^verbatim>\<open>self.capability_index.get(key, [])\<close>\<close>

definition index_get :: "(string \<rightharpoonup> posting list) \<Rightarrow> string \<Rightarrow> posting list" where
  "index_get idx key = (case idx key of None \<Rightarrow> [] | Some ps \<Rightarrow> ps)"

text \<open>
  \<^verbatim>\<open>self.capability_index[key].append(p)\<close> on the \<^verbatim>\<open>defaultdict(list)\<close>: a missing
  key starts from the empty list.
\<close>

definition index_append :: "(string \<rightharpoonup> posting list) \<Rightarrow> string \<Rightarrow> posting \<Rightarrow> (string \<rightharpoonup> posting list)" where
  "index_append idx key p = idx(key \<mapsto> index_get idx key @ [p])"

text \<open>The body of the loop of \<^verbatim>\<open>index_user_profile\<close>, for one capability.\<close>

definition index_capability ::
  "UserProfile \<Rightarrow> (string \<rightharpoonup> posting list) \<Rightarrow> Capability \<Rightarrow> (string \<rightharpoonup> posting list)" where
  "index_capability profile idx c =
     (let idx1 = index_append idx (''type:'' @ value_of (cap_type c)) (profile, c);
          idx2 = foldl (\<lambda>i tag. index_append i (''tag:'' @ tag) (profile, c)) idx1 (cap_tags c);
          idx3 = foldl (\<lambda>i token. if length token > 3
                                      then index_append i (''token:'' @ token) (profile, c)
                                      else i)
                   idx2 (split (lower (cap_name c)))
      in idx3)"

definition index_user_profile :: "UserProfile \<Rightarrow> CapabilityMatcher \<Rightarrow> CapabilityMatcher" where
  "index_user_profile profile self =
     self\<lparr>capability_index :=
            foldl (index_capability profile) (capability_index self) (capabilities profile)\<rparr>"

text \<open>\<^verbatim>\<open>_compute_semantic_similarity\<close>: the Jaccard index of the two token sets.\<close>

definition compute_semantic_similarity :: "Need \<Rightarrow> Capability \<Rightarrow> real" where
  "compute_semantic_similarity nd c =
     (let need_tokens = set (split (lower (need_name nd)) @ split (lower (need_description nd)))
                          \<union> set (need_tags nd);
          cap_tokens = set (split (lower (cap_name c)) @ split (lower (cap_description c)))
                          \<union> set (cap_tags c)
      in if need_tokens = {} \<or> cap_tokens = {} then 0
         else let intersection = card (need_tokens \<inter> cap_tokens);
                  union = card (need_tokens \<union> cap_tokens)
              in if union > 0 then real intersection / real union else 0)"

text \<open>\<^verbatim>\<open>_compute_complementarity\<close>\<close>

definition compute_complementarity :: "UserProfile \<Rightarrow> UserProfile \<Rightarrow> real" where
  "compute_complementarity need_user_profile capability_user_profile =
     (let user1_caps = set (map (\<lambda>c. (value_of (cap_type c), cap_name c))
                              (capabilities need_user_profile));
          user2_caps = set (map (\<lambda>c. (value_of (cap_type c), cap_name c))
                              (capabilities capability_user_profile));
          overlap = card (user1_caps \<inter> user2_caps);
          total = card (user1_caps \<union> user2_caps)
      in if total = 0 then 0.5
         else let overlap_ratio = real overlap / real total;
                  optimal_overlap = 0.2;
                  distance = \<bar>overlap_ratio - optimal_overlap\<bar>;
                  complementarity = 1.0 - (distance * 2)
              in max 0.0 (min 1.0 complementarity))"

text \<open>\<^verbatim>\<open>_compute_feasibility\<close>. An absent or empty timezone is falsy.\<close>

definition truthy_str :: "string option \<Rightarrow> bool" where
  "truthy_str s = (case s of None \<Rightarrow> False | Some t \<Rightarrow> t \<noteq> [])"

definition compute_feasibility :: "UserProfile \<Rightarrow> UserProfile \<Rightarrow> Need \<Rightarrow> real" where
  "compute_feasibility need_user_profile capability_user_profile nd =
     (let f0 = 1.0;
          f1 = (if truthy_str (timezone need_user_profile)
                   \<and> truthy_str (timezone capability_user_profile)
                   \<and> timezone need_user_profile \<noteq> timezone capability_user_profile
                then f0 * 0.8 else f0);
          f2 = (if availability need_user_profile \<noteq> []
                   \<and> availability capability_user_profile \<noteq> []
                then f1 * 0.9 else f1);
          f3 = (if constraints nd \<noteq> [] \<and> truthy (dict_get (constraints nd) ''budget'')
                then f2 * 0.95 else f2);
          f4 = (if urgency nd > 0.8 then f3 * 0.9 else f3)
      in max 0.0 (min 1.0 f4))"

text \<open>\<^verbatim>\<open>_apply_historical_learning\<close>\<close>

definition apply_historical_learning :: "CapabilityMatcher \<Rightarrow> Need \<Rightarrow> Capability \<Rightarrow> real" where
  "apply_historical_learning self nd c =
     (if match_history self = [] then 0.0
      else let similar_matches =
                 filter (\<lambda>m. need_type (need m) = need_type nd
                               \<and> cap_type (capability m) = cap_type c)
                   (match_history self)
           in if similar_matches = [] then 0.0
              else let avg_score = sum_list (map match_score similar_matches)
                                     / real (length similar_matches)
                   in (avg_score - 0.5) * 0.2)"

text \<open>\<^verbatim>\<open>_compute_confidence\<close>\<close>

definition compute_confidence :: "CapabilityMatcher \<Rightarrow> Match \<Rightarrow> real" where
  "compute_confidence self m =
     (let confidence_factors =
            [match_score m,
             (if evidence m \<noteq> [] then 0.9 else 0.5),
             0.8,
             (if match_history self \<noteq> [] then 0.8 else 0.5)]
      in sum_list confidence_factors / real (length confidence_factors))"

text \<open>\<^verbatim>\<open>_gather_evidence\<close>\<close>

definition gather_evidence :: "interpreter \<Rightarrow> Need \<Rightarrow> Capability \<Rightarrow> string list" where
  "gather_evidence py nd c =
     (let e1 = (if need_description nd \<noteq> [] \<and> cap_description c \<noteq> []
                then [''Need and capability descriptions are aligned''] else []);
          common_tags = set (need_tags nd) \<inter> set (cap_tags c);
          e2 = (if common_tags \<noteq> {}
                then e1 @ [''Shared domain tags: '' @ join '', '' (set_order py common_tags)]
                else e1);
          e3 = (if proficiency c \<ge> 0.7
                then e2 @ [''High proficiency level: '' @ format_2f py (proficiency c)]
                else e2)
      in e3)"

text \<open>\<^verbatim>\<open>_identify_uncertainties\<close>\<close>

definition identify_uncertainties ::
  "CapabilityMatcher \<Rightarrow> UserProfile \<Rightarrow> UserProfile \<Rightarrow> string list" where
  "identify_uncertainties self need_user_profile capability_user_profile =
     (if length (capabilities need_user_profile) < 3
      then [''Limited capability data for need user''] else [])
     @ (if length (capabilities capability_user_profile) < 3
        then [''Limited capability data for capability user''] else [])
     @ (if match_history self = []
        then [''No historical match data for calibration''] else [])
     @ (if \<not> truthy_str (timezone need_user_profile)
        then [''Unknown timezone for need user''] else [])
     @ (if \<not> truthy_str (timezone capability_user_profile)
        then [''Unknown timezone for capability user''] else [])"

text \<open>
  The state the methods below run in: the matcher object and the number of objects
  the process has built so far.
\<close>

record process =
  matcher :: CapabilityMatcher
  built :: nat

text \<open>
  The deduplication loop of \<^verbatim>\<open>_retrieve_candidates\<close>: \<open>seen\<close> holds the keys
  \<^verbatim>\<open>(user_id, capability_id)\<close> met so far.
\<close>

fun unique_candidates :: "(string \<times> string) set \<Rightarrow> posting list \<Rightarrow> posting list" where
  "unique_candidates seen [] = []"
| "unique_candidates seen (pc # rest) =
     (let key = (user_id (fst pc), capability_id (snd pc))
      in if key \<notin> seen then pc # unique_candidates (insert key seen) rest
         else unique_candidates seen rest)"

text \<open>The three retrieval strategies of \<^verbatim>\<open>_retrieve_candidates\<close>, before deduplication.\<close>

definition gather_candidates :: "(string \<rightharpoonup> posting list) \<Rightarrow> Need \<Rightarrow> posting list" where
  "gather_candidates idx nd =
     (let c1 = index_get idx (''type:'' @ value_of (need_type nd));
          c2 = foldl (\<lambda>cs tag. cs @ index_get idx (''tag:'' @ tag)) c1 (need_tags nd);
          c3 = foldl (\<lambda>cs token. if length token > 3
                                     then cs @ index_get idx (''token:'' @ token)
                                     else cs)
                 c2 (split (lower (need_name nd)))
      in c3)"

text \<open>\<^verbatim>\<open>_retrieve_candidates\<close>: returns the candidates; the graph passed in gets one step.\<close>

definition retrieve_candidates ::
  "interpreter \<Rightarrow> Need \<Rightarrow> UserProfile \<Rightarrow> ProvenanceGraph \<Rightarrow> process
     \<Rightarrow> (posting list \<times> ProvenanceGraph) \<times> process" where
  "retrieve_candidates py nd need_user_profile prov s =
     (let unique = unique_candidates {} (gather_candidates (capability_index (matcher s)) nd);
          candidates = filter (\<lambda>pc. user_id (fst pc) \<noteq> user_id need_user_profile) unique;
          step = new_step py (built s) ''candidate_retrieval''
                   [(''need_type'', PStr (value_of (need_type nd))),
                    (''need_tags'', PList (map PStr (need_tags nd)))]
                   [(''candidates_found'', PInt (int (length candidates)))]
                   (''Retrieved '' @ str_nat (length candidates)
                      @ '' candidates using type, tag, and semantic matching'')
                   0.9
      in ((candidates, add_step step prov), s\<lparr>built := built s + 1\<rparr>))"

text \<open>
  \<^verbatim>\<open>_score_match\<close>. It builds six objects: the graph of the match, the match and four
  steps. The graph passed in is not used.
\<close>

definition score_match ::
  "interpreter \<Rightarrow> Need \<Rightarrow> UserProfile \<Rightarrow> Capability \<Rightarrow> UserProfile \<Rightarrow> ProvenanceGraph
     \<Rightarrow> process \<Rightarrow> Match \<times> process" where
  "score_match py nd need_user_profile c capability_user_profile prov s =
     (let self = matcher s;
          k = built s;
          m0 = \<lparr>match_id = uuid4 py (k + 1), need = nd,
                need_user_id = user_id need_user_profile, capability = c,
                capability_user_id = user_id capability_user_profile,
                match_score = 0.0, complementarity_score = 0.0, feasibility_score = 0.0,
                provenance = create_provenance_graph py k ''match_scoring'',
                match_confidence = 0.0, uncertainty_factors = [], evidence = [],
                similar_past_matches = [], verification_methods = [],
                match_created_at = now py (k + 1)\<rparr>;
          semantic_score = compute_semantic_similarity nd c;
          m1 = m0\<lparr>provenance := add_step
                  (new_step py (k + 2) ''semantic_similarity''
                     [(''need_name'', PStr (need_name nd)), (''capability_name'', PStr (cap_name c))]
                     [(''score'', PFloat semantic_score)]
                     ''Computed semantic similarity between need and capability'' 0.8)
                  (provenance m0)\<rparr>;
          complementarity = compute_complementarity need_user_profile capability_user_profile;
          m2 = m1\<lparr>complementarity_score := complementarity\<rparr>;
          m3 = m2\<lparr>provenance := add_step
                  (new_step py (k + 3) ''complementarity_analysis'' []
                     [(''score'', PFloat complementarity)]
                     ''Analyzed how well the users' capabilities complement each other'' 0.7)
                  (provenance m2)\<rparr>;
          feasibility = compute_feasibility need_user_profile capability_user_profile nd;
          m4 = m3\<lparr>feasibility_score := feasibility\<rparr>;
          m5 = m4\<lparr>provenance := add_step
                  (new_step py (k + 4) ''feasibility_assessment'' []
                     [(''score'', PFloat feasibility)]
                     ''Assessed practical feasibility (location, time, resources)'' 0.75)
                  (provenance m4)\<rparr>;
          historical_boost = apply_historical_learning self nd c;
          m6 = m5\<lparr>provenance := add_step
                  (new_step py (k + 5) ''historical_learning'' []
                     [(''boost'', PFloat historical_boost)]
                     (''Applied learning from '' @ str_nat (length (match_history self))
                        @ '' past matches'')
                     (if match_history self \<noteq> [] then 0.6 else 0.3))
                  (provenance m5)\<rparr>;
          m7 = m6\<lparr>match_score :=
                  semantic_score * 0.3
                  + complementarity * weight_complementarity (config self)
                  + proficiency c * weight_proficiency (config self)
                  + feasibility * weight_feasibility (config self)
                  + historical_boost * 0.1\<rparr>;
          m8 = m7\<lparr>match_confidence := compute_confidence self m7\<rparr>;
          m9 = m8\<lparr>evidence := gather_evidence py nd c\<rparr>;
          m10 = m9\<lparr>verification_methods :=
                  [''Check '' @ user_id capability_user_profile @ [CHR 0x27]
                     @ ''s past work in this domain'',
                   ''Verify the capability description aligns with the need'',
                   ''Consider if practical constraints are manageable'']\<rparr>;
          m11 = m10\<lparr>uncertainty_factors :=
                  identify_uncertainties self need_user_profile capability_user_profile\<rparr>
      in (m11, s\<lparr>built := k + 6\<rparr>))"

text \<open>
  The scoring loop of \<^verbatim>\<open>find_matches\<close>: \<open>scored\<close> is the list
  \<^verbatim>\<open>scored_matches\<close> built so far.
\<close>

fun score_candidates ::
  "interpreter \<Rightarrow> Need \<Rightarrow> UserProfile \<Rightarrow> ProvenanceGraph \<Rightarrow> posting list \<Rightarrow> Match list
     \<Rightarrow> process \<Rightarrow> Match list \<times> process" where
  "score_candidates py nd need_user_profile prov [] scored s = (scored, s)"
| "score_candidates py nd need_user_profile prov (pc # rest) scored s =
     (let (m, s1) = score_match py nd need_user_profile (snd pc) (fst pc) prov s;
          scored1 = (if match_score m \<ge> min_match_score (config (matcher s1))
                     then scored @ [m] else scored)
      in score_candidates py nd need_user_profile prov rest scored1 s1)"

text \<open>
  \<^verbatim>\<open>scored_matches.sort(key=lambda m: m.match_score, reverse=True)\<close>: Python's sort
  is stable, also with \<^verbatim>\<open>reverse=True\<close>. The stable insertion sort of the library,
  on the negated score, gives the same list.
\<close>

definition sort_by_score_desc :: "Match list \<Rightarrow> Match list" where
  "sort_by_score_desc ms = sort_key (\<lambda>m. - match_score m) ms"

text \<open>\<^verbatim>\<open>max_results or default\<close>: \<^verbatim>\<open>None\<close> and \<^verbatim>\<open>0\<close> are falsy.\<close>

definition or_default :: "int option \<Rightarrow> int \<Rightarrow> int" where
  "or_default max_results d =
     (case max_results of None \<Rightarrow> d | Some n \<Rightarrow> if n = 0 then d else n)"

text \<open>\<^verbatim>\<open>xs[:n]\<close>: a negative \<open>n\<close> counts from the end.\<close>

definition slice_to :: "'a list \<Rightarrow> int \<Rightarrow> 'a list" where
  "slice_to xs n = (if n \<ge> 0 then take (nat n) xs else take (length xs - nat (- n)) xs)"

text \<open>\<^verbatim>\<open>_add_ranking_reasoning\<close>\<close>

definition add_ranking_reasoning ::
  "interpreter \<Rightarrow> Match list \<Rightarrow> ProvenanceGraph \<Rightarrow> process \<Rightarrow> ProvenanceGraph \<times> process" where
  "add_ranking_reasoning py matches prov s =
     (if matches = [] then (prov, s)
      else (add_step
              (new_step py (built s) ''ranking''
                 [(''total_matches'', PInt (int (length matches)))]
                 [(''top_match_score'', PFloat (match_score (hd matches))),
                  (''score_range'',
                     PStr (format_2f py (match_score (last matches)) @ '' - ''
                           @ format_2f py (match_score (hd matches))))]
                 (''Ranked '' @ str_nat (length matches)
                    @ '' matches by combined score of semantic similarity, ''
                    @ ''complementarity, proficiency, and feasibility'')
                 0.85)
              prov,
            s\<lparr>built := built s + 1\<rparr>))"

text \<open>
  \<^verbatim>\<open>find_matches\<close>: returns the ranked matches. The graph of the whole operation is
  local to the call and is dropped when it returns.
\<close>

definition find_matches ::
  "interpreter \<Rightarrow> Need \<Rightarrow> UserProfile \<Rightarrow> int option \<Rightarrow> process \<Rightarrow> Match list \<times> process" where
  "find_matches py nd need_user_profile max_results s =
     (let prov0 = create_provenance_graph py (built s) ''capability_match'';
          s0 = s\<lparr>built := built s + 1\<rparr>;
          ((candidates, prov1), s1) = retrieve_candidates py nd need_user_profile prov0 s0;
          (scored_matches, s2) = score_candidates py nd need_user_profile prov1 candidates [] s1;
          sorted_matches = sort_by_score_desc scored_matches;
          max_results1 = or_default max_results (max_matches_per_need (config (matcher s2)));
          top_matches = slice_to sorted_matches max_results1;
          (prov2, s3) = add_ranking_reasoning py top_matches prov1 s2
      in (top_matches, s3))"

text \<open>\<^verbatim>\<open>learn_from_outcome\<close>\<close>

definition learn_from_outcome :: "Match \<Rightarrow> bool \<Rightarrow> CapabilityMatcher \<Rightarrow> CapabilityMatcher" where
  "learn_from_outcome m success self =
     (let history = match_history self @ [m];
          pattern_key = value_of (need_type (need m)) @ '':'' @ value_of (cap_type (capability m));
          new_value = (if success then match_score m else 0.0);
          patterns =
            (case success_patterns self pattern_key of
               None \<Rightarrow> (success_patterns self)(pattern_key \<mapsto> new_value)
             | Some current \<Rightarrow>
                 (success_patterns self)(pattern_key \<mapsto> 0.3 * new_value + (1 - 0.3) * current))
      in self\<lparr>match_history := history, success_patterns := patterns\<rparr>)"

subsection \<open>The confidence interval (transparency/engine.py)\<close>

text \<open>\<^verbatim>\<open>TransparencyEngine._estimate_confidence_interval\<close>\<close>

definition estimate_confidence_interval :: "Match \<Rightarrow> real \<times> real" where
  "estimate_confidence_interval m =
     (let uncertainty = 1 - match_confidence m;
          margin = match_score m * uncertainty * 0.3
      in (max 0 (match_score m - margin), min 1 (match_score m + margin)))"

subsection \<open>The scoring of the semantic matcher (matching/semantic_engine.py)\<close>

record SemanticMatchingConfig =
  embedding_model_name :: string
  sem_min_match_score :: real
  sem_max_matches_per_need :: int
  similarity_threshold :: real
  weight_semantic :: real
  sem_weight_complementarity :: real
  sem_weight_proficiency :: real
  sem_weight_feasibility :: real
  chromadb_path :: string

definition default_semantic_config :: SemanticMatchingConfig where
  "default_semantic_config =
     \<lparr>embedding_model_name = ''all-MiniLM-L6-v2'', sem_min_match_score = 0.4,
      sem_max_matches_per_need = 10, similarity_threshold = 0.3, weight_semantic = 0.4,
      sem_weight_complementarity = 0.3, sem_weight_proficiency = 0.2,
      sem_weight_feasibility = 0.1, chromadb_path = ''./substrate_data/chroma''\<rparr>"

text \<open>A one-dimensional \<^verbatim>\<open>numpy.ndarray\<close> of floats.\<close>

type_synonym ndarray = "real list"

datatype py_error = ValueError

text \<open>
  The fields of a \<^verbatim>\<open>SemanticMatcher\<close> that scoring reads. \<open>embedding_model\<close> is
  the \<^verbatim>\<open>encode\<close> method of the loaded model, or \<^verbatim>\<open>None\<close> when the package is
  missing. The ChromaDB client, an external service, is left out.
\<close>

record SemanticMatcher =
  sem_config :: SemanticMatchingConfig
  embedding_model :: "(string \<Rightarrow> ndarray) option"
  memory_capabilities :: "(UserProfile \<times> Capability \<times> ndarray) list"
  sem_match_history :: "Match list"

text \<open>\<^verbatim>\<open>_capability_to_text\<close>\<close>

definition capability_to_text :: "Capability \<Rightarrow> string" where
  "capability_to_text c =
     (let parts = [''Capability: '' @ cap_name c,
                   ''Description: '' @ cap_description c,
                   ''Type: '' @ value_of (cap_type c)];
          parts1 = (if cap_tags c \<noteq> [] then parts @ [''Tags: '' @ join '', '' (cap_tags c)]
                    else parts)
      in join '' | '' parts1)"

text \<open>\<^verbatim>\<open>_embed_capability\<close>\<close>

definition embed_capability :: "SemanticMatcher \<Rightarrow> Capability \<Rightarrow> ndarray option" where
  "embed_capability self c =
     (case embedding_model self of
        None \<Rightarrow> None
      | Some encode \<Rightarrow> Some (encode (capability_to_text c)))"

text \<open>
  \<^verbatim>\<open>_cosine_similarity\<close>. \<^verbatim>\<open>np.dot\<close> raises \<^verbatim>\<open>ValueError\<close> on vectors of
  different lengths. When one of the vectors has norm zero the quotient is \<open>0 / 0\<close> and
  numpy returns \<^verbatim>\<open>nan\<close>, with a warning and no exception: the result \<open>None\<close>.
\<close>

definition cosine_similarity :: "ndarray \<Rightarrow> ndarray \<Rightarrow> py_error + real option" where
  "cosine_similarity a b =
     (if length a \<noteq> length b then Inl ValueError
      else let dot = sum_list (map2 (*) a b);
               norms = sqrt (sum_list (map (\<lambda>x. x * x) a)) * sqrt (sum_list (map (\<lambda>x. x * x) b))
           in Inr (if norms = 0 then None else Some (dot / norms)))"

text \<open>
  \<^verbatim>\<open>not need_embedding\<close>: \<^verbatim>\<open>None\<close> is falsy; the truth value of an array is
  that of its element when it has exactly one, and \<^verbatim>\<open>ValueError\<close> otherwise
  (numpy 2.2; earlier versions answer \<^verbatim>\<open>False\<close> for the empty array, with a
  warning).
\<close>

definition not_array :: "ndarray option \<Rightarrow> py_error + bool" where
  "not_array e =
     (case e of
        None \<Rightarrow> Inr True
      | Some v \<Rightarrow> if length v = 1 then Inr (hd v = 0) else Inl ValueError)"

text \<open>\<^verbatim>\<open>_keyword_similarity\<close>\<close>

definition keyword_similarity :: "Need \<Rightarrow> Capability \<Rightarrow> real" where
  "keyword_similarity nd c =
     (let need_words = set (split (lower (need_name nd)) @ split (lower (need_description nd)))
                          \<union> set (need_tags nd);
          cap_words = set (split (lower (cap_name c)) @ split (lower (cap_description c)))
                          \<union> set (cap_tags c)
      in if need_words = {} \<or> cap_words = {} then 0
         else let intersection = card (need_words \<inter> cap_words);
                  union = card (need_words \<union> cap_words)
              in if union > 0 then real intersection / real union else 0)"

text \<open>\<^verbatim>\<open>SemanticMatcher._compute_complementarity\<close>\<close>

definition sem_compute_complementarity :: "UserProfile \<Rightarrow> UserProfile \<Rightarrow> real" where
  "sem_compute_complementarity profile1 profile2 =
     (let caps1 = set (map (\<lambda>c. (value_of (cap_type c), cap_name c)) (capabilities profile1));
          caps2 = set (map (\<lambda>c. (value_of (cap_type c), cap_name c)) (capabilities profile2));
          overlap = card (caps1 \<inter> caps2);
          total = card (caps1 \<union> caps2)
      in if total = 0 then 0.5
         else let overlap_ratio = real overlap / real total;
                  optimal = 0.2;
                  distance = \<bar>overlap_ratio - optimal\<bar>
              in max 0.0 (min 1.0 (1.0 - (distance * 2))))"

text \<open>\<^verbatim>\<open>SemanticMatcher._compute_feasibility\<close>\<close>

definition sem_compute_feasibility :: "UserProfile \<Rightarrow> UserProfile \<Rightarrow> Need \<Rightarrow> real" where
  "sem_compute_feasibility profile1 profile2 nd =
     (let f0 = 1.0;
          f1 = (if truthy_str (timezone profile1) \<and> truthy_str (timezone profile2)
                then (if timezone profile1 \<noteq> timezone profile2 then f0 * 0.9 else f0)
                else f0);
          f2 = (if urgency nd > 0.8 then f1 * 0.9 else f1)
      in f2)"

text \<open>\<^verbatim>\<open>SemanticMatcher._compute_confidence\<close>\<close>

definition sem_compute_confidence :: "SemanticMatcher \<Rightarrow> Match \<Rightarrow> bool \<Rightarrow> real" where
  "sem_compute_confidence self m has_embeddings =
     (let factors =
            [(if has_embeddings then 0.9 else 0.6),
             match_score m,
             (if evidence m \<noteq> [] then 0.8 else 0.5),
             (if length (sem_match_history self) > 10 then 0.8 else 0.5)]
      in sum_list factors / real (length factors))"

text \<open>
  What a call of \<^verbatim>\<open>SemanticMatcher._score_match\<close> does: it raises an exception, or it
  returns a match, or, when the similarity is \<^verbatim>\<open>nan\<close>, it returns a match whose
  similarity, score and confidence are \<^verbatim>\<open>nan\<close>, which a record of reals cannot
  hold.
\<close>

datatype outcome = Raises py_error | Returns Match | Returns_nan

text \<open>
  \<^verbatim>\<open>SemanticMatcher._score_match\<close>, with \<open>k\<close> objects built before the call. It builds
  the graph of the match, the match and one step.
\<close>

definition sem_score_match ::
  "interpreter \<Rightarrow> SemanticMatcher \<Rightarrow> nat \<Rightarrow> Need \<Rightarrow> UserProfile \<Rightarrow> Capability \<Rightarrow> UserProfile
     \<Rightarrow> ndarray option \<Rightarrow> ProvenanceGraph \<Rightarrow> outcome" where
  "sem_score_match py self k nd need_user_profile c capability_user_profile need_embedding prov =
     (let m0 = \<lparr>match_id = uuid4 py (k + 1), need = nd,
                need_user_id = user_id need_user_profile, capability = c,
                capability_user_id = user_id capability_user_profile,
                match_score = 0.0, complementarity_score = 0.0, feasibility_score = 0.0,
                provenance = create_provenance_graph py k ''semantic_match_scoring'',
                match_confidence = 0.0, uncertainty_factors = [], evidence = [],
                similar_past_matches = [], verification_methods = [],
                match_created_at = now py (k + 1)\<rparr>
      in case (case need_embedding of
                 Some e \<Rightarrow> (case embed_capability self c of
                               Some cap_embedding \<Rightarrow> cosine_similarity e cap_embedding
                             | None \<Rightarrow> Inr (Some 0.5))
               | None \<Rightarrow> Inr (Some (keyword_similarity nd c))) of
           Inl err \<Rightarrow> Raises err
         | Inr None \<Rightarrow>
            (case not_array need_embedding of
               Inl err \<Rightarrow> Raises err
             | Inr no_embedding \<Rightarrow> Returns_nan)
         | Inr (Some semantic_sim) \<Rightarrow>
            (let m1 = m0\<lparr>provenance := add_step
                        (new_step py (k + 2) ''semantic_similarity'' []
                           [(''similarity'', PFloat semantic_sim)]
                           ''Computed deep semantic similarity using embeddings (not just keywords)''
                           (if need_embedding \<noteq> None then 0.9 else 0.6))
                        (provenance m0)\<rparr>;
                 complementarity = sem_compute_complementarity need_user_profile
                                     capability_user_profile;
                 m2 = m1\<lparr>complementarity_score := complementarity\<rparr>;
                 feasibility = sem_compute_feasibility need_user_profile
                                 capability_user_profile nd;
                 m3 = m2\<lparr>feasibility_score := feasibility\<rparr>;
                 m4 = m3\<lparr>match_score :=
                        semantic_sim * weight_semantic (sem_config self)
                        + complementarity * sem_weight_complementarity (sem_config self)
                        + proficiency c * sem_weight_proficiency (sem_config self)
                        + feasibility * sem_weight_feasibility (sem_config self)\<rparr>;
                 m5 = m4\<lparr>match_confidence :=
                        sem_compute_confidence self m4 (need_embedding \<noteq> None)\<rparr>;
                 m6 = m5\<lparr>evidence :=
                        [''Semantic similarity: '' @ format_2f py semantic_sim,
                         ''Complementarity: '' @ format_2f py complementarity,
                         ''Proficiency: '' @ format_2f py (proficiency c),
                         ''Feasibility: '' @ format_2f py feasibility]\<rparr>;
                 m7 = m6\<lparr>verification_methods :=
                        [''Review the capability description for alignment'',
                         ''Check if semantic similarity score makes sense'',
                         ''Verify proficiency level is adequate'']\<rparr>
             in case not_array need_embedding of
                  Inl err \<Rightarrow> Raises err
                | Inr no_embedding \<Rightarrow>
                    Returns (m7\<lparr>uncertainty_factors :=
                           (if no_embedding
                            then [''No embeddings available (keyword fallback)''] else [])
                           @ (if length (sem_match_history self) < 10
                              then [''Limited historical data for calibration''] else [])\<rparr>)))"

subsection \<open>Notions used to state the properties\<close>

text \<open>The candidates of a call of \<^verbatim>\<open>find_matches\<close>, scored one after the other in
  the order of retrieval, before the threshold is applied.\<close>

fun scored_in_order ::
  "interpreter \<Rightarrow> Need \<Rightarrow> UserProfile \<Rightarrow> ProvenanceGraph \<Rightarrow> posting list \<Rightarrow> process
     \<Rightarrow> Match list" where
  "scored_in_order py nd need_user_profile prov [] s = []"
| "scored_in_order py nd need_user_profile prov (pc # rest) s =
     fst (score_match py nd need_user_profile (snd pc) (fst pc) prov s)
       # scored_in_order py nd need_user_profile prov rest
           (snd (score_match py nd need_user_profile (snd pc) (fst pc) prov s))"

definition scored_candidates ::
  "interpreter \<Rightarrow> Need \<Rightarrow> UserProfile \<Rightarrow> process \<Rightarrow> Match list" where
  "scored_candidates py nd need_user_profile s =
     (let prov0 = create_provenance_graph py (built s) ''capability_match'';
          r = retrieve_candidates py nd need_user_profile prov0 (s\<lparr>built := built s + 1\<rparr>)
      in scored_in_order py nd need_user_profile (snd (fst r)) (fst (fst r)) (snd r))"

text \<open>A match, a graph and a step without the identifiers and times of creation drawn
  for them.\<close>

definition forget_step_ids :: "ProvenanceStep \<Rightarrow> ProvenanceStep" where
  "forget_step_ids st = st\<lparr>step_id := [], timestamp := 0\<rparr>"

definition forget_graph_ids :: "ProvenanceGraph \<Rightarrow> ProvenanceGraph" where
  "forget_graph_ids g =
     g\<lparr>graph_id := [], graph_created_at := 0, steps := map forget_step_ids (steps g)\<rparr>"

definition forget_ids :: "Match \<Rightarrow> Match" where
  "forget_ids m =
     m\<lparr>match_id := [], match_created_at := 0, provenance := forget_graph_ids (provenance m)\<rparr>"

text \<open>The postings that indexing a capability, and a profile, appends under a key.\<close>

definition postings_added_cap :: "UserProfile \<Rightarrow> string \<Rightarrow> Capability \<Rightarrow> posting list" where
  "postings_added_cap profile key c =
     (if ''type:'' @ value_of (cap_type c) = key then [(profile, c)] else [])
     @ concat (map (\<lambda>tag. if ''tag:'' @ tag = key then [(profile, c)] else []) (cap_tags c))
     @ concat (map (\<lambda>token. if length token > 3 \<and> ''token:'' @ token = key
                              then [(profile, c)] else [])
                 (split (lower (cap_name c))))"

definition postings_added :: "UserProfile \<Rightarrow> string \<Rightarrow> posting list" where
  "postings_added profile key = concat (map (postings_added_cap profile key) (capabilities profile))"

text \<open>The \<open>(type, name)\<close> pairs of a profile and the overlap ratio of two profiles.\<close>

definition cap_pairs :: "UserProfile \<Rightarrow> (string \<times> string) set" where
  "cap_pairs p = set (map (\<lambda>c. (value_of (cap_type c), cap_name c)) (capabilities p))"

definition overlap_ratio :: "UserProfile \<Rightarrow> UserProfile \<Rightarrow> real" where
  "overlap_ratio p1 p2 =
     real (card (cap_pairs p1 \<inter> cap_pairs p2)) / real (card (cap_pairs p1 \<union> cap_pairs p2))"

definition clamp01 :: "real \<Rightarrow> real" where
  "clamp01 x = max 0 (min 1 x)"

text \<open>The confidence of the similarity step of a match, when it has one.\<close>

definition similarity_confidence :: "Match \<Rightarrow> real option" where
  "similarity_confidence m =
     map_option step_confidence
       (find (\<lambda>st. operation st = ''semantic_similarity'') (steps (provenance m)))"

text \<open>The matches of a history with the types of a need and a capability, and the mean
  of their scores.\<close>

definition similar_in :: "Match list \<Rightarrow> Need \<Rightarrow> Capability \<Rightarrow> Match list" where
  "similar_in history nd c =
     filter (\<lambda>m. need_type (need m) = need_type nd \<and> cap_type (capability m) = cap_type c)
       history"

definition mean_score :: "Match list \<Rightarrow> real" where
  "mean_score ms = sum_list (map match_score ms) / real (length ms)"

text \<open>Recording a list of outcomes, one after the other.\<close>

definition learn_all :: "(Match \<times> bool) list \<Rightarrow> CapabilityMatcher \<Rightarrow> CapabilityMatcher" where
  "learn_all outcomes self = foldl (\<lambda>st oc. learn_from_outcome (fst oc) (snd oc) st) self outcomes"

text \<open>The keys \<^verbatim>\<open>(user_id, capability_id)\<close> of a list of postings; two lists of postings
  that deduplicate alike after any list of postings already seen.\<close>

definition posting_keys :: "posting list \<Rightarrow> (string \<times> string) set" where
  "posting_keys ps = (\<lambda>pc. (user_id (fst pc), capability_id (snd pc))) ` set ps"

definition same_unique :: "posting list \<Rightarrow> posting list \<Rightarrow> bool" where
  "same_unique ps qs \<longleftrightarrow>
     posting_keys ps = posting_keys qs
     \<and> (\<forall>seen. unique_candidates seen ps = unique_candidates seen qs)"

subsection \<open>Example inputs\<close>

text \<open>
  An interpreter: identifiers and times numbered by the draw, sets of the tags below
  iterated in the order of the list, and \<^verbatim>\<open>:.2f\<close> as rounding to the nearest
  hundredth, ties to even.
\<close>

definition round_half_even :: "real \<Rightarrow> int" where
  "round_half_even x =
     (let f = \<lfloor>x\<rfloor>; d = x - of_int f
      in if d < 1 / 2 then f else if d > 1 / 2 then f + 1 else if even f then f else f + 1)"

definition format_2f_py :: "real \<Rightarrow> string" where
  "format_2f_py x =
     (let h = nat (round_half_even (\<bar>x\<bar> * 100))
      in (if x < 0 then ''-'' else []) @ str_nat (h div 100) @ ''.''
         @ [digit ((h div 10) mod 10), digit (h mod 10)])"

definition example_tags :: "string list" where
  "example_tags = [''navigation'', ''ros2'', ''software'']"

definition py_a :: interpreter where
  "py_a = \<lparr>uuid4 = (\<lambda>k. ''uuid-'' @ str_nat k), now = (\<lambda>k. k),
           set_order = (\<lambda>S. filter (\<lambda>t. t \<in> S) example_tags), format_2f = format_2f_py\<rparr>"

definition py_b :: interpreter where
  "py_b = \<lparr>uuid4 = (\<lambda>k. ''other-'' @ str_nat k), now = (\<lambda>k. 1000 + k),
           set_order = (\<lambda>S. filter (\<lambda>t. t \<in> S) example_tags), format_2f = format_2f_py\<rparr>"

text \<open>\<^verbatim>\<open>Capability(capability_id=cid, name=nm, proficiency=p)\<close>, the other fields at
  their defaults.\<close>

definition new_capability :: "string \<Rightarrow> string \<Rightarrow> real \<Rightarrow> Capability" where
  "new_capability cid nm p =
     \<lparr>capability_id = cid, cap_type = SKILL, cap_name = nm, cap_description = [],
      proficiency = p, cap_confidence = 0.8, cap_evidence = [], privacy_level = NETWORK_ONLY,
      cap_tags = [], cap_metadata = []\<rparr>"

text \<open>\<^verbatim>\<open>Need(need_id=nid, name=nm)\<close>\<close>

definition new_need :: "string \<Rightarrow> string \<Rightarrow> Need" where
  "new_need nid nm =
     \<lparr>need_id = nid, need_type = SKILL, need_name = nm, need_description = [],
      urgency = 0.5, importance = 0.5, need_domain = OTHER, need_context = [],
      constraints = [], need_tags = []\<rparr>"

text \<open>\<^verbatim>\<open>UserProfile(user_id=uid, capabilities=caps)\<close>\<close>

definition new_profile :: "string \<Rightarrow> Capability list \<Rightarrow> UserProfile" where
  "new_profile uid caps =
     \<lparr>user_id = uid, capabilities = caps, needs = [], domains = [], location_region = None,
      timezone = None, availability = [], preferences = [], profile_created_at = 0,
      profile_updated_at = 0\<rparr>"

definition lidar_a :: Capability where
  "lidar_a = new_capability ''a1'' ''lidar'' 0.5"

definition ros2_b :: Capability where
  "ros2_b = new_capability ''b1'' ''ros2'' 1.0"

definition lidar_c :: Capability where
  "lidar_c = new_capability ''c1'' ''lidar'' 0.5"

definition ros2_d :: Capability where
  "ros2_d = new_capability ''d1'' ''ros2'' 1.0"

definition lidar_e :: Capability where
  "lidar_e = new_capability ''e1'' ''lidar'' 0.2"

definition alice :: UserProfile where
  "alice = new_profile ''alice'' [lidar_a]"

definition bob :: UserProfile where
  "bob = new_profile ''bob'' [ros2_b]"

definition carol :: UserProfile where
  "carol = new_profile ''carol'' [lidar_c]"

definition dave :: UserProfile where
  "dave = new_profile ''dave'' [ros2_d]"

definition eve :: UserProfile where
  "eve = new_profile ''eve'' [lidar_e]"

definition newcomer :: UserProfile where
  "newcomer = new_profile ''newcomer'' []"

definition need_ros2 :: Need where
  "need_ros2 = new_need ''n1'' ''ros2''"

text \<open>A fresh matcher, and one in which the five profiles with capabilities are indexed.\<close>

definition fresh :: process where
  "fresh = \<lparr>matcher = new_matcher default_config, built = 0\<rparr>"

definition indexed :: process where
  "indexed =
     \<lparr>matcher = index_user_profile bob (index_user_profile dave (index_user_profile carol
                  (index_user_profile eve (index_user_profile alice
                     (new_matcher default_config))))),
      built = 0\<rparr>"

text \<open>Three matches scored on the fresh matcher, of scores 0.45, 1.14 and 0.69, and the
  matchers that have recorded the first, and the third, five times as a success.\<close>

definition low_match :: Match where
  "low_match =
     fst (score_match py_a need_ros2 alice lidar_c carol
            (create_provenance_graph py_a 0 ''batch_match'') fresh)"

definition high_match :: Match where
  "high_match =
     fst (score_match py_a need_ros2 alice ros2_d dave
            (create_provenance_graph py_a 0 ''batch_match'') fresh)"

definition learned_low :: process where
  "learned_low = fresh\<lparr>matcher := learn_all (replicate 5 (low_match, True)) (matcher fresh)\<rparr>"

definition good_match :: Match where
  "good_match =
     fst (score_match py_a need_ros2 newcomer lidar_c carol
            (create_provenance_graph py_a 0 ''batch_match'') fresh)"

definition learned_good :: process where
  "learned_good = fresh\<lparr>matcher := learn_all (replicate 5 (good_match, True)) (matcher fresh)\<rparr>"


definition sem_embedding :: SemanticMatcher where
  "sem_embedding =
     \<lparr>sem_config = default_semantic_config, embedding_model = Some (\<lambda>text. [1, 0]),
      memory_capabilities = [], sem_match_history = []\<rparr>"

section \<open>Properties\<close>

declare str_nat.simps [simp del]

subsection \<open>Scoring one candidate\<close>

lemma score_match_snd: "snd (score_match py nd nup c cup prov s) = s\<lparr>built := built s + 6\<rparr>"
  by (simp add: score_match_def Let_def)

lemma score_match_user_ids:
  "need_user_id (fst (score_match py nd nup c cup prov s)) = user_id nup"
  "capability_user_id (fst (score_match py nd nup c cup prov s)) = user_id cup"
  by (simp_all add: score_match_def Let_def)

lemma score_match_score:
  "match_score (fst (score_match py nd nup c cup prov s)) =
     compute_semantic_similarity nd c * 0.3
     + compute_complementarity nup cup * weight_complementarity (config (matcher s))
     + proficiency c * weight_proficiency (config (matcher s))
     + compute_feasibility nup cup nd * weight_feasibility (config (matcher s))
     + apply_historical_learning (matcher s) nd c * 0.1"
  by (simp add: score_match_def Let_def)

lemma score_match_forget:
  assumes "set_order py1 = set_order py2" "format_2f py1 = format_2f py2" "matcher s1 = matcher s2"
  shows "forget_ids (fst (score_match py1 nd nup c cup prov1 s1))
         = forget_ids (fst (score_match py2 nd nup c cup prov2 s2))"
  using assms
  by (simp add: score_match_def Let_def forget_ids_def forget_graph_ids_def forget_step_ids_def
      add_step_def new_step_def create_provenance_graph_def gather_evidence_def
      compute_confidence_def)

lemma match_score_forget: "match_score (forget_ids m) = match_score m"
  by (simp add: forget_ids_def)

subsection \<open>The scoring loop\<close>

lemma score_candidates_eq:
  "score_candidates py nd nup prov cands scored s =
     (scored @ filter (\<lambda>m. min_match_score (config (matcher s)) \<le> match_score m)
                 (scored_in_order py nd nup prov cands s),
      s\<lparr>built := built s + 6 * length cands\<rparr>)"
proof (induction cands arbitrary: scored s)
  case Nil
  then show ?case by simp
next
  case (Cons pc rest)
  show ?case
    by (simp add: Cons.IH split_beta score_match_snd Let_def)
qed

lemma scored_in_order_users:
  "m \<in> set (scored_in_order py nd nup prov cands s) \<Longrightarrow>
     need_user_id m = user_id nup \<and> capability_user_id m \<in> (\<lambda>pc. user_id (fst pc)) ` set cands"
  by (induction cands arbitrary: s) (auto simp: score_match_user_ids)

lemma scored_in_order_forget:
  assumes "set_order py1 = set_order py2" "format_2f py1 = format_2f py2" "matcher s1 = matcher s2"
  shows "map forget_ids (scored_in_order py1 nd nup prov1 cands s1)
         = map forget_ids (scored_in_order py2 nd nup prov2 cands s2)"
  using assms(3)
proof (induction cands arbitrary: s1 s2)
  case Nil
  then show ?case by simp
next
  case (Cons pc rest)
  have "forget_ids (fst (score_match py1 nd nup (snd pc) (fst pc) prov1 s1))
        = forget_ids (fst (score_match py2 nd nup (snd pc) (fst pc) prov2 s2))"
    using assms(1,2) Cons.prems by (rule score_match_forget)
  moreover have "matcher (snd (score_match py1 nd nup (snd pc) (fst pc) prov1 s1))
        = matcher (snd (score_match py2 nd nup (snd pc) (fst pc) prov2 s2))"
    using Cons.prems by (simp add: score_match_snd)
  ultimately show ?case
    using Cons.IH by simp
qed

subsection \<open>Retrieval\<close>

lemma retrieve_candidates_snd:
  "snd (retrieve_candidates py nd nup prov s) = s\<lparr>built := built s + 1\<rparr>"
  by (simp add: retrieve_candidates_def Let_def)

lemma retrieve_candidates_no_self:
  "pc \<in> set (fst (fst (retrieve_candidates py nd nup prov s))) \<Longrightarrow> user_id (fst pc) \<noteq> user_id nup"
  by (simp add: retrieve_candidates_def Let_def)

lemma retrieve_candidates_indep:
  "matcher s1 = matcher s2 \<Longrightarrow>
   fst (fst (retrieve_candidates py1 nd nup prov1 s1)) = fst (fst (retrieve_candidates py2 nd nup prov2 s2))"
  by (simp add: retrieve_candidates_def Let_def)

subsection \<open>Sorting and slicing\<close>

lemma insort_key_map:
  assumes "\<And>x. k' (f x) = k x"
  shows "map f (insort_key k x xs) = insort_key k' (f x) (map f xs)"
  by (induction xs) (simp_all add: assms)

lemma sort_key_map:
  assumes "\<And>x. k' (f x) = k x"
  shows "map f (sort_key k xs) = sort_key k' (map f xs)"
  by (induction xs) (simp_all add: insort_key_map [where k' = k', OF assms])

lemma slice_to_map: "map f (slice_to xs n) = slice_to (map f xs) n"
  by (simp add: slice_to_def take_map)

lemma slice_to_prefix: "prefix (slice_to xs n) xs"
  by (simp add: slice_to_def take_is_prefix)

lemma set_slice_to: "set (slice_to xs n) \<subseteq> set xs"
  by (simp add: slice_to_def set_take_subset)

lemma sorted_desc: "sorted_wrt (\<lambda>a b. match_score a \<ge> match_score b) (sort_by_score_desc ms)"
proof -
  have "sorted (map (\<lambda>m. - match_score m) (sort_by_score_desc ms))"
    unfolding sort_by_score_desc_def by (rule sorted_sort_key)
  then show ?thesis
    by (simp add: sorted_map)
qed

lemma sorted_wrt_slice_to: "sorted_wrt R xs \<Longrightarrow> sorted_wrt R (slice_to xs n)"
  by (simp add: slice_to_def sorted_wrt_take)

lemma sort_desc_stable:
  "filter (\<lambda>m. match_score m = v) (sort_by_score_desc ms) = filter (\<lambda>m. match_score m = v) ms"
proof -
  have "filter (\<lambda>m. - match_score m = - v) (sort_key (\<lambda>m. - match_score m) ms)
        = filter (\<lambda>m. - match_score m = - v) ms"
    by (rule sort_key_stable)
  then show ?thesis
    by (simp add: sort_by_score_desc_def)
qed

subsection \<open>find_matches in closed form\<close>

lemma find_matches_fst:
  "fst (find_matches py nd nup mr s) =
     slice_to (sort_by_score_desc
                 (filter (\<lambda>m. min_match_score (config (matcher s)) \<le> match_score m)
                    (scored_candidates py nd nup s)))
       (or_default mr (max_matches_per_need (config (matcher s))))"
  by (simp add: find_matches_def scored_candidates_def Let_def split_beta score_candidates_eq
      retrieve_candidates_snd)

lemma add_ranking_reasoning_matcher:
  "matcher (snd (add_ranking_reasoning py ms prov s)) = matcher s"
  by (simp add: add_ranking_reasoning_def)

lemma find_matches_matcher: "matcher (snd (find_matches py nd nup mr s)) = matcher s"
  by (simp add: find_matches_def Let_def split_beta score_candidates_eq
      retrieve_candidates_snd add_ranking_reasoning_matcher)

subsection \<open>The example inputs, evaluated\<close>

lemma split_examples:
  "split (lower ''ros2'') = [''ros2'']" "split (lower ''lidar'') = [''lidar'']"
  "split (lower []) = []"
  by (simp_all add: split_def lower_def lower_char_def is_space_def)

lemma cap_fields:
  "cap_name lidar_a = ''lidar''" "cap_name ros2_b = ''ros2''" "cap_name lidar_c = ''lidar''"
  "cap_name ros2_d = ''ros2''" "cap_name lidar_e = ''lidar''"
  "capability_id lidar_a = ''a1''" "capability_id ros2_b = ''b1''" "capability_id lidar_c = ''c1''"
  "capability_id ros2_d = ''d1''" "capability_id lidar_e = ''e1''"
  "proficiency lidar_a = 0.5" "proficiency ros2_b = 1" "proficiency lidar_c = 0.5"
  "proficiency ros2_d = 1" "proficiency lidar_e = 0.2"
  by (simp_all add: lidar_a_def ros2_b_def lidar_c_def ros2_d_def lidar_e_def new_capability_def)

lemma cap_defaults:
  "cap_type lidar_a = SKILL" "cap_type ros2_b = SKILL" "cap_type lidar_c = SKILL"
  "cap_type ros2_d = SKILL" "cap_type lidar_e = SKILL"
  "cap_tags lidar_a = []" "cap_tags ros2_b = []" "cap_tags lidar_c = []"
  "cap_tags ros2_d = []" "cap_tags lidar_e = []"
  "cap_description lidar_a = []" "cap_description ros2_b = []" "cap_description lidar_c = []"
  "cap_description ros2_d = []" "cap_description lidar_e = []"
  by (simp_all add: lidar_a_def ros2_b_def lidar_c_def ros2_d_def lidar_e_def new_capability_def)

lemma profile_fields:
  "user_id (new_profile u cs) = u" "capabilities (new_profile u cs) = cs"
  "timezone (new_profile u cs) = None" "availability (new_profile u cs) = []"
  by (simp_all add: new_profile_def)

lemma need_fields:
  "need_name need_ros2 = ''ros2''" "need_type need_ros2 = SKILL" "need_tags need_ros2 = []"
  "need_description need_ros2 = []" "urgency need_ros2 = 0.5" "constraints need_ros2 = []"
  by (simp_all add: need_ros2_def new_need_def)

lemmas profile_defs = alice_def bob_def carol_def dave_def eve_def newcomer_def

lemma index_capability_plain:
  "cap_tags c = [] \<Longrightarrow> split (lower (cap_name c)) = [t] \<Longrightarrow> length t > 3 \<Longrightarrow>
   index_capability p idx c =
     index_append (index_append idx (''type:'' @ value_of (cap_type c)) (p, c))
       (''token:'' @ t) (p, c)"
  by (simp add: index_capability_def)

lemma index_get_indexed:
  "index_get (capability_index (matcher indexed)) ''type:skill'' =
     [(alice, lidar_a), (eve, lidar_e), (carol, lidar_c), (dave, ros2_d), (bob, ros2_b)]"
  "index_get (capability_index (matcher indexed)) ''token:ros2'' =
     [(dave, ros2_d), (bob, ros2_b)]"
  by (simp_all add: indexed_def index_user_profile_def profile_defs profile_fields
      index_capability_plain cap_fields cap_defaults split_examples
      index_append_def index_get_def new_matcher_def)

lemma gather_indexed:
  "gather_candidates (capability_index (matcher indexed)) need_ros2 =
     [(alice, lidar_a), (eve, lidar_e), (carol, lidar_c), (dave, ros2_d), (bob, ros2_b),
      (dave, ros2_d), (bob, ros2_b)]"
  by (simp add: gather_candidates_def need_fields split_examples index_get_indexed)

lemma indexed_fields:
  "config (matcher indexed) = default_config" "match_history (matcher indexed) = []"
  "built indexed = 0"
  by (simp_all add: indexed_def index_user_profile_def new_matcher_def)

lemma retrieved_indexed:
  "matcher s = matcher indexed \<Longrightarrow>
   fst (fst (retrieve_candidates py need_ros2 alice prov s)) =
     [(eve, lidar_e), (carol, lidar_c), (dave, ros2_d), (bob, ros2_b)]"
  by (simp add: retrieve_candidates_def Let_def gather_indexed profile_defs profile_fields cap_fields)

lemma similarity_examples:
  "compute_semantic_similarity need_ros2 ros2_b = 1"
  "compute_semantic_similarity need_ros2 ros2_d = 1"
  "compute_semantic_similarity need_ros2 lidar_c = 0"
  "compute_semantic_similarity need_ros2 lidar_e = 0"
  by (simp_all add: compute_semantic_similarity_def Let_def need_fields cap_fields cap_defaults
      split_examples)

lemma complementarity_examples:
  "compute_complementarity alice bob = 0.6"
  "compute_complementarity alice dave = 0.6"
  "compute_complementarity alice carol = 0"
  "compute_complementarity alice eve = 0"
  by (simp_all add: compute_complementarity_def Let_def profile_defs profile_fields cap_fields
      cap_defaults)

lemma feasibility_examples:
  "compute_feasibility alice bob need_ros2 = 1" "compute_feasibility alice dave need_ros2 = 1"
  "compute_feasibility alice carol need_ros2 = 1" "compute_feasibility alice eve need_ros2 = 1"
  by (simp_all add: compute_feasibility_def Let_def profile_defs profile_fields need_fields
      truthy_str_def)

lemma no_history: "match_history self = [] \<Longrightarrow> apply_historical_learning self nd c = 0"
  by (simp add: apply_historical_learning_def)

lemma default_weights:
  "weight_complementarity default_config = 0.4" "weight_proficiency default_config = 0.3"
  "weight_feasibility default_config = 0.3" "min_match_score default_config = 0.4"
  "max_matches_per_need default_config = 10"
  by (simp_all add: default_config_def)

lemma example_scores:
  assumes "config (matcher s) = default_config" "match_history (matcher s) = []"
  shows "match_score (fst (score_match py need_ros2 alice ros2_b bob prov s)) = 1.14"
        "match_score (fst (score_match py need_ros2 alice ros2_d dave prov s)) = 1.14"
        "match_score (fst (score_match py need_ros2 alice lidar_c carol prov s)) = 0.45"
        "match_score (fst (score_match py need_ros2 alice lidar_e eve prov s)) = 0.36"
  using assms
  by (simp_all add: score_match_score similarity_examples complementarity_examples
      feasibility_examples no_history default_weights cap_fields)

text \<open>The candidates of the example call with their owners and scores, in the order of
  retrieval.\<close>

lemma user_ids:
  "user_id alice = ''alice''" "user_id bob = ''bob''" "user_id carol = ''carol''"
  "user_id dave = ''dave''" "user_id eve = ''eve''" "user_id newcomer = ''newcomer''"
  by (simp_all add: profile_defs profile_fields)

lemma scored_candidates_indexed:
  "map (\<lambda>m. (capability_user_id m, match_score m)) (scored_candidates py need_ros2 alice indexed)
   = [(''eve'', 0.36), (''carol'', 0.45), (''dave'', 1.14), (''bob'', 1.14)]"
proof -
  let ?r = "retrieve_candidates py need_ros2 alice
              (create_provenance_graph py (built indexed) ''capability_match'')
              (indexed\<lparr>built := built indexed + 1\<rparr>)"
  have cands: "fst (fst ?r) = [(eve, lidar_e), (carol, lidar_c), (dave, ros2_d), (bob, ros2_b)]"
    by (rule retrieved_indexed) simp
  have "scored_candidates py need_ros2 alice indexed
        = scored_in_order py need_ros2 alice (snd (fst ?r))
            [(eve, lidar_e), (carol, lidar_c), (dave, ros2_d), (bob, ros2_b)] (snd ?r)"
    unfolding scored_candidates_def Let_def cands ..
  then show ?thesis
    by (simp add: retrieve_candidates_snd score_match_snd score_match_user_ids example_scores
        indexed_fields user_ids)
qed

lemma ranked_pairs:
  "map (\<lambda>m. (g m, match_score m)) (fst (find_matches py nd nup mr s)) =
     slice_to (sort_key (\<lambda>p. - snd p)
                 (filter (\<lambda>p. min_match_score (config (matcher s)) \<le> snd p)
                    (map (\<lambda>m. (g m, match_score m)) (scored_candidates py nd nup s))))
       (or_default mr (max_matches_per_need (config (matcher s))))"
proof -
  let ?f = "\<lambda>m. (g m, match_score m)"
  have sort: "map ?f (sort_by_score_desc ms) = sort_key (\<lambda>p. - snd p) (map ?f ms)" for ms
    unfolding sort_by_score_desc_def by (rule sort_key_map) simp
  have filt: "map ?f (filter (\<lambda>m. t \<le> match_score m) ms)
              = filter (\<lambda>p. t \<le> snd p) (map ?f ms)" for t ms
    by (simp add: filter_map comp_def)
  show ?thesis
    unfolding find_matches_fst slice_to_map sort filt ..
qed

lemma find_matches_indexed:
  "map (\<lambda>m. (capability_user_id m, match_score m))
     (fst (find_matches py need_ros2 alice None indexed))
   = [(''dave'', 1.14), (''bob'', 1.14), (''carol'', 0.45)]"
  "map (\<lambda>m. (capability_user_id m, match_score m))
     (fst (find_matches py need_ros2 alice (Some 2) indexed))
   = [(''dave'', 1.14), (''bob'', 1.14)]"
  unfolding ranked_pairs scored_candidates_indexed
  by (simp_all add: indexed_fields default_weights or_default_def slice_to_def)

subsection \<open>Properties of find_matches\<close>

lemma find_matches_subset:
  "set (fst (find_matches py nd nup mr s)) \<subseteq>
     {m \<in> set (scored_candidates py nd nup s). min_match_score (config (matcher s)) \<le> match_score m}"
proof -
  have "set (fst (find_matches py nd nup mr s)) \<subseteq>
          set (sort_by_score_desc
                 (filter (\<lambda>m. min_match_score (config (matcher s)) \<le> match_score m)
                    (scored_candidates py nd nup s)))"
    unfolding find_matches_fst by (rule set_slice_to)
  then show ?thesis
    by (auto simp: sort_by_score_desc_def)
qed

lemma scored_candidates_users:
  assumes "m \<in> set (scored_candidates py nd nup s)"
  shows "need_user_id m = user_id nup \<and> capability_user_id m \<noteq> user_id nup"
proof -
  let ?r = "retrieve_candidates py nd nup (create_provenance_graph py (built s) ''capability_match'')
              (s\<lparr>built := built s + 1\<rparr>)"
  from assms have "m \<in> set (scored_in_order py nd nup (snd (fst ?r)) (fst (fst ?r)) (snd ?r))"
    by (simp add: scored_candidates_def Let_def)
  then have "need_user_id m = user_id nup"
    and "capability_user_id m \<in> (\<lambda>pc. user_id (fst pc)) ` set (fst (fst ?r))"
    by (auto dest: scored_in_order_users)
  then show ?thesis
    by (auto dest: retrieve_candidates_no_self)
qed

text \<open>
  C2. No match returned by \<open>find_matches\<close> pairs the requester with one of the
  requester's own capabilities: the identifier of the user of the need differs from the
  identifier of the owner of the capability, whatever the need, the profile and the index.
  The postings of the requester are dropped by retrieval already.
\<close>

theorem find_matches_no_self_match:
  "(\<forall>pc \<in> set (fst (fst (retrieve_candidates py nd need_user_profile prov s))).
      user_id (fst pc) \<noteq> user_id need_user_profile)
   \<and> (\<forall>m \<in> set (fst (find_matches py nd need_user_profile max_results s)).
        need_user_id m \<noteq> capability_user_id m)"
proof (intro conjI ballI)
  fix pc
  assume "pc \<in> set (fst (fst (retrieve_candidates py nd need_user_profile prov s)))"
  then show "user_id (fst pc) \<noteq> user_id need_user_profile"
    by (rule retrieve_candidates_no_self)
next
  fix m
  assume "m \<in> set (fst (find_matches py nd need_user_profile max_results s))"
  then have "m \<in> set (scored_candidates py nd need_user_profile s)"
    using find_matches_subset by blast
  then show "need_user_id m \<noteq> capability_user_id m"
    using scored_candidates_users by fastforce
qed

theorem find_matches_no_self_match_witness:
  "(alice, lidar_a) \<in> set (gather_candidates (capability_index (matcher indexed)) need_ros2)
   \<and> (alice, lidar_a) \<notin> set (fst (fst (retrieve_candidates py_a need_ros2 alice
                                 (create_provenance_graph py_a 0 ''capability_match'') indexed)))
   \<and> map capability_user_id (fst (find_matches py_a need_ros2 alice None indexed))
       = [''dave'', ''bob'', ''carol'']
   \<and> need_user_id (hd (fst (find_matches py_a need_ros2 alice None indexed)))
       \<noteq> capability_user_id (hd (fst (find_matches py_a need_ros2 alice None indexed)))"
proof -
  let ?ms = "fst (find_matches py_a need_ros2 alice None indexed)"
  note no_self = find_matches_no_self_match [of py_a need_ros2 alice
      "create_provenance_graph py_a 0 ''capability_match''" indexed None]
  have "map fst (map (\<lambda>m. (capability_user_id m, match_score m)) ?ms) = [''dave'', ''bob'', ''carol'']"
    unfolding find_matches_indexed by simp
  then have users: "map capability_user_id ?ms = [''dave'', ''bob'', ''carol'']"
    by (simp add: comp_def)
  then have "?ms \<noteq> []" by auto
  then have "hd ?ms \<in> set ?ms" by simp
  then have "need_user_id (hd ?ms) \<noteq> capability_user_id (hd ?ms)"
    using no_self by blast
  moreover have "(alice, lidar_a) \<notin> set (fst (fst (retrieve_candidates py_a need_ros2 alice
                                 (create_provenance_graph py_a 0 ''capability_match'') indexed)))"
    using no_self by fastforce
  ultimately show ?thesis
    using users by (simp add: gather_indexed)
qed

text \<open>
  C3. Every match returned by \<open>find_matches\<close> has a score of at least
  \<open>min_match_score\<close>, and the threshold is applied before sorting and truncation: the
  result is the slice of the sorted list of exactly those scored candidates that reach
  the threshold, so a candidate below it takes none of the \<open>max_results\<close> places.
\<close>

theorem find_matches_threshold:
  "(\<forall>m \<in> set (fst (find_matches py nd need_user_profile max_results s)).
      min_match_score (config (matcher s)) \<le> match_score m)
   \<and> fst (find_matches py nd need_user_profile max_results s) =
       slice_to (sort_by_score_desc
                   (filter (\<lambda>m. min_match_score (config (matcher s)) \<le> match_score m)
                      (scored_candidates py nd need_user_profile s)))
         (or_default max_results (max_matches_per_need (config (matcher s))))"
  using find_matches_subset [of py nd need_user_profile max_results s]
  by (auto simp: find_matches_fst)

theorem find_matches_threshold_witness:
  "map match_score (scored_candidates py_a need_ros2 alice indexed) = [0.36, 0.45, 1.14, 1.14]
   \<and> map match_score (fst (find_matches py_a need_ros2 alice (Some 2) indexed)) = [1.14, 1.14]
   \<and> min_match_score (config (matcher indexed))
        \<le> match_score (hd (fst (find_matches py_a need_ros2 alice (Some 2) indexed)))"
proof -
  let ?ms = "fst (find_matches py_a need_ros2 alice (Some 2) indexed)"
  have "map snd (map (\<lambda>m. (capability_user_id m, match_score m)) ?ms) = [1.14, 1.14]"
    unfolding find_matches_indexed by simp
  then have scores: "map match_score ?ms = [1.14, 1.14]"
    by (simp add: comp_def)
  have "map snd (map (\<lambda>m. (capability_user_id m, match_score m))
                   (scored_candidates py_a need_ros2 alice indexed)) = [0.36, 0.45, 1.14, 1.14]"
    unfolding scored_candidates_indexed by simp
  then have all: "map match_score (scored_candidates py_a need_ros2 alice indexed)
                  = [0.36, 0.45, 1.14, 1.14]"
    by (simp add: comp_def)
  from scores have "?ms \<noteq> []" by auto
  then have "hd ?ms \<in> set ?ms" by simp
  then have "min_match_score (config (matcher indexed)) \<le> match_score (hd ?ms)"
    using find_matches_threshold [of py_a need_ros2 alice "Some 2" indexed] by blast
  then show ?thesis
    using scores all by simp
qed

text \<open>The identifier of a match is the one drawn for it: two interpreters that draw
  different identifiers score the same candidate into matches that differ in it.\<close>

lemma match_ids_depend_on_draws:
  "match_id (fst (score_match py nd nup c cup prov s)) = uuid4 py (built s + 1)"
  "match_id (fst (score_match py_a nd nup c cup prov s))
   \<noteq> match_id (fst (score_match py_b nd nup c cup prov' s'))"
  by (simp_all add: score_match_def Let_def py_a_def py_b_def)

text \<open>
  C4. The list returned by \<open>find_matches\<close> is sorted by score, highest first; matches
  of equal score keep the order in which their candidates were retrieved; and two calls
  with the same need, profile and matcher return the same list, up to the identifiers and
  times of creation drawn for the objects of each call.
\<close>

theorem find_matches_ranking:
  "sorted_wrt (\<lambda>a b. match_score a \<ge> match_score b)
     (fst (find_matches py nd need_user_profile max_results s))
   \<and> (\<forall>v. prefix (filter (\<lambda>m. match_score m = v)
                      (fst (find_matches py nd need_user_profile max_results s)))
                   (filter (\<lambda>m. match_score m = v) (scored_candidates py nd need_user_profile s)))
   \<and> (set_order py = set_order py' \<and> format_2f py = format_2f py' \<and> matcher s = matcher s' \<longrightarrow>
        map forget_ids (fst (find_matches py nd need_user_profile max_results s))
        = map forget_ids (fst (find_matches py' nd need_user_profile max_results s')))"
proof (intro conjI allI impI)
  show "sorted_wrt (\<lambda>a b. match_score a \<ge> match_score b)
          (fst (find_matches py nd need_user_profile max_results s))"
    unfolding find_matches_fst by (intro sorted_wrt_slice_to sorted_desc)
next
  fix v
  let ?t = "min_match_score (config (matcher s))"
  let ?all = "scored_candidates py nd need_user_profile s"
  have "prefix (filter (\<lambda>m. match_score m = v)
                  (fst (find_matches py nd need_user_profile max_results s)))
               (filter (\<lambda>m. match_score m = v)
                  (sort_by_score_desc (filter (\<lambda>m. ?t \<le> match_score m) ?all)))"
    unfolding find_matches_fst by (intro filter_mono_prefix slice_to_prefix)
  moreover have "filter (\<lambda>m. match_score m = v)
                   (sort_by_score_desc (filter (\<lambda>m. ?t \<le> match_score m) ?all))
                 = (if ?t \<le> v then filter (\<lambda>m. match_score m = v) ?all else [])"
    by (auto simp: sort_desc_stable intro: filter_cong)
  ultimately show "prefix (filter (\<lambda>m. match_score m = v)
                      (fst (find_matches py nd need_user_profile max_results s)))
                   (filter (\<lambda>m. match_score m = v) ?all)"
    by (simp split: if_splits)
next
  assume eq: "set_order py = set_order py' \<and> format_2f py = format_2f py' \<and> matcher s = matcher s'"
  let ?r = "retrieve_candidates py nd need_user_profile
              (create_provenance_graph py (built s) ''capability_match'') (s\<lparr>built := built s + 1\<rparr>)"
  let ?r' = "retrieve_candidates py' nd need_user_profile
              (create_provenance_graph py' (built s') ''capability_match'') (s'\<lparr>built := built s' + 1\<rparr>)"
  have cands: "fst (fst ?r) = fst (fst ?r')"
    using eq by (intro retrieve_candidates_indep) simp
  have "map forget_ids (scored_candidates py nd need_user_profile s)
        = map forget_ids (scored_candidates py' nd need_user_profile s')"
    unfolding scored_candidates_def Let_def cands
    using eq by (intro scored_in_order_forget) (simp_all add: retrieve_candidates_snd)
  moreover have "map forget_ids (fst (find_matches q nd need_user_profile max_results t)) =
      slice_to (sort_key (\<lambda>m. - match_score m)
                  (filter (\<lambda>m. min_match_score (config (matcher t)) \<le> match_score m)
                     (map forget_ids (scored_candidates q nd need_user_profile t))))
        (or_default max_results (max_matches_per_need (config (matcher t))))" for q t
  proof -
    have sort: "map forget_ids (sort_by_score_desc ms)
                = sort_key (\<lambda>m. - match_score m) (map forget_ids ms)" for ms
      unfolding sort_by_score_desc_def by (rule sort_key_map) (simp add: match_score_forget)
    have filt: "map forget_ids (filter (\<lambda>m. x \<le> match_score m) ms)
                = filter (\<lambda>m. x \<le> match_score m) (map forget_ids ms)" for x ms
      by (simp add: filter_map comp_def match_score_forget)
    show ?thesis
      unfolding find_matches_fst slice_to_map sort filt ..
  qed
  ultimately show "map forget_ids (fst (find_matches py nd need_user_profile max_results s))
        = map forget_ids (fst (find_matches py' nd need_user_profile max_results s'))"
    using eq by simp
qed

theorem find_matches_ranking_witness:
  "set_order py_a = set_order py_b \<and> format_2f py_a = format_2f py_b
   \<and> matcher indexed = matcher (indexed\<lparr>built := 7\<rparr>)
   \<and> map forget_ids (fst (find_matches py_a need_ros2 alice None indexed))
       = map forget_ids (fst (find_matches py_b need_ros2 alice None (indexed\<lparr>built := 7\<rparr>)))
   \<and> map (\<lambda>m. (capability_user_id m, match_score m))
         (fst (find_matches py_a need_ros2 alice None indexed))
       = [(''dave'', 1.14), (''bob'', 1.14), (''carol'', 0.45)]"
proof -
  have h: "set_order py_a = set_order py_b \<and> format_2f py_a = format_2f py_b
           \<and> matcher indexed = matcher (indexed\<lparr>built := 7\<rparr>)"
    by (simp add: py_a_def py_b_def)
  then show ?thesis
    using find_matches_ranking [of py_a need_ros2 alice None indexed py_b "indexed\<lparr>built := 7\<rparr>"]
    by (simp only: find_matches_indexed simp_thms)
qed

text \<open>
  C10. \<open>find_matches\<close> leaves the matcher as it was: the index, the history, the
  success patterns and the configuration after the call are those before it. Only the
  number of objects built by the process advances.
\<close>

theorem find_matches_read_only:
  "capability_index (matcher (snd (find_matches py nd need_user_profile max_results s)))
     = capability_index (matcher s)
   \<and> match_history (matcher (snd (find_matches py nd need_user_profile max_results s)))
     = match_history (matcher s)
   \<and> success_patterns (matcher (snd (find_matches py nd need_user_profile max_results s)))
     = success_patterns (matcher s)
   \<and> config (matcher (snd (find_matches py nd need_user_profile max_results s)))
     = config (matcher s)"
  by (simp add: find_matches_matcher)

subsection \<open>The range of the scores\<close>

lemma score_match_confidence:
  "match_confidence (fst (score_match py nd nup c cup prov s)) =
     (match_score (fst (score_match py nd nup c cup prov s)) + 0.5 + 0.8
        + (if match_history (matcher s) \<noteq> [] then 0.8 else 0.5)) / 4"
  by (simp add: score_match_def Let_def compute_confidence_def)

lemma similarity_in_unit:
  "0 \<le> compute_semantic_similarity nd c \<and> compute_semantic_similarity nd c \<le> 1"
proof -
  have "card (A \<inter> B) \<le> card (A \<union> B)" if "finite A" "finite B" for A B :: "string set"
    using that by (intro card_mono) auto
  then show ?thesis
    by (simp add: compute_semantic_similarity_def Let_def divide_le_eq_1)
qed

lemma complementarity_in_unit:
  "0 \<le> compute_complementarity p1 p2 \<and> compute_complementarity p1 p2 \<le> 1"
  by (simp add: compute_complementarity_def Let_def)

lemma feasibility_in_unit:
  "0 \<le> compute_feasibility p1 p2 nd \<and> compute_feasibility p1 p2 nd \<le> 1"
  by (simp add: compute_feasibility_def Let_def)

lemma top_match_indexed:
  "match_score (hd (fst (find_matches py need_ros2 alice None indexed))) = 1.14"
  "match_confidence (hd (fst (find_matches py need_ros2 alice None indexed))) = 0.735"
proof -
  let ?ms = "fst (find_matches py need_ros2 alice None indexed)"
  let ?r = "retrieve_candidates py need_ros2 alice
              (create_provenance_graph py (built indexed) ''capability_match'')
              (indexed\<lparr>built := built indexed + 1\<rparr>)"
  have cands: "fst (fst ?r) = [(eve, lidar_e), (carol, lidar_c), (dave, ros2_d), (bob, ros2_b)]"
    by (rule retrieved_indexed) simp
  have "scored_candidates py need_ros2 alice indexed
        = scored_in_order py need_ros2 alice (snd (fst ?r))
            [(eve, lidar_e), (carol, lidar_c), (dave, ros2_d), (bob, ros2_b)] (snd ?r)"
    unfolding scored_candidates_def Let_def cands ..
  then have all: "map (\<lambda>m. (match_confidence m, match_score m))
                    (scored_candidates py need_ros2 alice indexed)
                  = [(0.54, 0.36), (0.5625, 0.45), (0.735, 1.14), (0.735, 1.14)]"
    by (simp add: retrieve_candidates_snd score_match_snd score_match_confidence example_scores
        indexed_fields)
  have "map (\<lambda>m. (match_confidence m, match_score m)) ?ms
        = [(0.735, 1.14), (0.735, 1.14), (0.5625, 0.45)]"
    unfolding ranked_pairs all
    by (simp add: indexed_fields default_weights or_default_def slice_to_def)
  then have "?ms \<noteq> [] \<and> (match_confidence (hd ?ms), match_score (hd ?ms)) = (0.735, 1.14)"
    by (cases ?ms) auto
  then show "match_score (hd ?ms) = 1.14" "match_confidence (hd ?ms) = 0.735"
    by simp_all
qed

text \<open>
  C1. The score of a match is meant to lie between 0 and 1. The sub-scores do, but the
  weights of the combination add up to more than 1 and the sum is not clamped: in the
  example the need \<open>ros2\<close> of \<open>alice\<close> meets the capability \<open>ros2\<close> of \<open>dave\<close> with a
  score of 1.14.
\<close>

theorem find_matches_score_above_one:
  "map match_score (fst (find_matches py_a need_ros2 alice None indexed)) = [1.14, 1.14, 0.45]
   \<and> match_score (hd (fst (find_matches py_a need_ros2 alice None indexed))) > 1"
proof -
  have "map snd (map (\<lambda>m. (capability_user_id m, match_score m))
                   (fst (find_matches py_a need_ros2 alice None indexed))) = [1.14, 1.14, 0.45]"
    unfolding find_matches_indexed by simp
  then show ?thesis
    by (simp add: comp_def top_match_indexed)
qed

subsection \<open>The confidence interval\<close>

lemma confidence_interval_brackets_valid:
  assumes "0 \<le> match_score m" "match_score m \<le> 1" "match_confidence m \<le> 1"
  shows "fst (estimate_confidence_interval m) \<le> match_score m
         \<and> match_score m \<le> snd (estimate_confidence_interval m)"
proof -
  have "0 \<le> match_score m * (1 - match_confidence m)"
    using assms by (intro mult_nonneg_nonneg) simp_all
  then show ?thesis
    using assms by (simp add: estimate_confidence_interval_def Let_def)
qed

text \<open>
  C8. The confidence interval is the score plus and minus \<open>score * (1 - confidence) * 0.3\<close>,
  cut at 0 and at 1, and is meant to contain the score. For the first match of the
  example, whose score is 1.14, the upper end is cut at 1: the interval is
  \<open>(1.04937, 1)\<close> and the score lies above it.
\<close>

theorem confidence_interval_misses_score:
  "estimate_confidence_interval (hd (fst (find_matches py_a need_ros2 alice None indexed)))
     = (1.04937, 1)
   \<and> \<not> match_score (hd (fst (find_matches py_a need_ros2 alice None indexed)))
         \<le> snd (estimate_confidence_interval
                  (hd (fst (find_matches py_a need_ros2 alice None indexed))))"
  by (simp add: estimate_confidence_interval_def Let_def top_match_indexed)

subsection \<open>Complementarity\<close>

lemma cap_pairs_empty: "cap_pairs p = {} \<longleftrightarrow> capabilities p = []"
  by (simp add: cap_pairs_def)

lemma complementarity_closed_form:
  "compute_complementarity p1 p2 =
     (if capabilities p1 = [] \<and> capabilities p2 = [] then 0.5
      else clamp01 (1 - 2 * \<bar>overlap_ratio p1 p2 - 0.20\<bar>))"
proof -
  have "card (cap_pairs p1 \<union> cap_pairs p2) = 0 \<longleftrightarrow> capabilities p1 = [] \<and> capabilities p2 = []"
    by (simp add: cap_pairs_def)
  then show ?thesis
    unfolding compute_complementarity_def overlap_ratio_def clamp01_def cap_pairs_def Let_def
    by (simp add: mult.commute)
qed

text \<open>
  C6, as the code has it. The complementarity is the neutral 0.5 when both profiles have
  no capability (the guard tests the union of the two sets of pairs); in every other case
  it is \<open>clamp(1 - 2 * |overlap_ratio - 0.20|, 0, 1)\<close>. With exactly one empty profile
  it is therefore not 0.5 but 0.6, as it is whenever the profiles share no
  \<open>(type, name)\<close> pair and at least one of them has a capability (\<open>overlap_ratio = 0\<close>).
\<close>

theorem complementarity_value:
  "compute_complementarity p1 p2 =
     (if capabilities p1 = [] \<and> capabilities p2 = [] then 0.5
      else clamp01 (1 - 2 * \<bar>overlap_ratio p1 p2 - 0.20\<bar>))
   \<and> (cap_pairs p1 \<inter> cap_pairs p2 = {} \<and> \<not> (capabilities p1 = [] \<and> capabilities p2 = [])
        \<longrightarrow> overlap_ratio p1 p2 = 0 \<and> compute_complementarity p1 p2 = 0.6)
   \<and> ((capabilities p1 = []) \<noteq> (capabilities p2 = [])
        \<longrightarrow> overlap_ratio p1 p2 = 0 \<and> compute_complementarity p1 p2 = 0.6)"
proof -
  have "cap_pairs p1 \<inter> cap_pairs p2 = {}" if "(capabilities p1 = []) \<noteq> (capabilities p2 = [])"
    using that by (auto simp: cap_pairs_def)
  then show ?thesis
    by (auto simp: complementarity_closed_form overlap_ratio_def clamp01_def)
qed

theorem complementarity_value_witness:
  "cap_pairs alice \<inter> cap_pairs bob = {} \<and> \<not> (capabilities alice = [] \<and> capabilities bob = [])
   \<and> overlap_ratio alice bob = 0 \<and> compute_complementarity alice bob = 0.6
   \<and> capabilities newcomer = [] \<and> capabilities bob \<noteq> []
   \<and> overlap_ratio newcomer bob = 0 \<and> compute_complementarity newcomer bob = 0.6"
proof -
  have h: "cap_pairs alice \<inter> cap_pairs bob = {}
           \<and> \<not> (capabilities alice = [] \<and> capabilities bob = [])"
    by (simp add: cap_pairs_def profile_defs profile_fields cap_fields cap_defaults)
  have h': "capabilities newcomer = [] \<and> capabilities bob \<noteq> []"
    by (simp add: profile_defs profile_fields)
  have a: "overlap_ratio alice bob = 0 \<and> compute_complementarity alice bob = 0.6"
    using h complementarity_value [of alice bob] by blast
  have b: "overlap_ratio newcomer bob = 0 \<and> compute_complementarity newcomer bob = 0.6"
    using h' complementarity_value [of newcomer bob] by blast
  show ?thesis
    using h h' a b by blast
qed

theorem complementarity_one_empty_counterexample:
  "capabilities newcomer = [] \<and> compute_complementarity newcomer bob \<noteq> 0.5"
  by (simp add: compute_complementarity_def Let_def profile_defs profile_fields)

subsection \<open>Learning from outcomes\<close>

lemma learn_from_outcome_fields:
  "match_history (learn_from_outcome m ok self) = match_history self @ [m]"
  "config (learn_from_outcome m ok self) = config self"
  "capability_index (learn_from_outcome m ok self) = capability_index self"
  by (simp_all add: learn_from_outcome_def Let_def)

lemma learn_all_fields:
  "match_history (learn_all outcomes self) = match_history self @ map fst outcomes"
  "config (learn_all outcomes self) = config self"
  "capability_index (learn_all outcomes self) = capability_index self"
  unfolding learn_all_def
  by (induction outcomes arbitrary: self) (simp_all add: learn_from_outcome_fields)

lemma historical_learning_closed_form:
  "apply_historical_learning self nd c =
     (if similar_in (match_history self) nd c = [] then 0
      else (mean_score (similar_in (match_history self) nd c) - 0.5) * 0.2)"
  by (simp add: apply_historical_learning_def similar_in_def mean_score_def Let_def)

text \<open>In exact arithmetic the history of recorded matches shifts a score by
  \<open>0.1 * 0.2 * (mean - 0.5)\<close>, where \<open>mean\<close> is the mean score of the recorded matches
  with the types of the need and the capability.\<close>

lemma score_with_history:
  assumes "match_history (matcher s) = []" "similar_in (map fst outcomes) nd c \<noteq> []"
  shows "match_score (fst (score_match py nd nup c cup prov
                         (s\<lparr>matcher := learn_all outcomes (matcher s)\<rparr>)))
       = match_score (fst (score_match py nd nup c cup prov s))
         + 0.1 * (0.2 * (mean_score (similar_in (map fst outcomes) nd c) - 0.5))"
  using assms
  by (simp add: score_match_score historical_learning_closed_form learn_all_fields similar_in_def)

lemma fresh_fields:
  "config (matcher fresh) = default_config" "match_history (matcher fresh) = []"
  by (simp_all add: fresh_def new_matcher_def)

lemma example_matches:
  "need low_match = need_ros2" "capability low_match = lidar_c" "match_score low_match = 0.45"
  "need high_match = need_ros2" "capability high_match = ros2_d" "match_score high_match = 1.14"
  unfolding low_match_def high_match_def
  by (simp_all add: example_scores fresh_fields) (simp_all add: score_match_def Let_def)

lemma good_match_score:
  assumes "config (matcher s) = default_config" "match_history (matcher s) = []"
  shows "match_score (fst (score_match py need_ros2 newcomer lidar_c carol prov s)) = 0.69"
proof -
  have "compute_complementarity newcomer carol = 0.6"
    by (simp add: compute_complementarity_def Let_def profile_defs profile_fields cap_fields
        cap_defaults)
  moreover have "compute_feasibility newcomer carol need_ros2 = 1"
    by (simp add: compute_feasibility_def Let_def profile_defs profile_fields need_fields
        truthy_str_def)
  ultimately show ?thesis
    using assms
    by (simp add: score_match_score similarity_examples no_history default_weights cap_fields)
qed

lemma good_match_fields:
  "need good_match = need_ros2" "capability good_match = lidar_c" "match_score good_match = 0.69"
  unfolding good_match_def
  by (simp_all add: good_match_score fresh_fields) (simp_all add: score_match_def Let_def)

lemma mean_score_at_least:
  assumes "ms \<noteq> []" "\<forall>m \<in> set ms. b \<le> match_score m"
  shows "b \<le> mean_score ms"
proof -
  have "b * real (length xs) \<le> sum_list (map match_score xs)"
    if "\<forall>m \<in> set xs. b \<le> match_score m" for xs
    using that by (induction xs) (simp_all add: algebra_simps)
  then have "b * real (length ms) \<le> sum_list (map match_score ms)"
    using assms(2) by blast
  then show ?thesis
    using assms(1) by (simp add: mean_score_def pos_le_divide_eq)
qed

text \<open>
  C7, as the code has it. The boost of scoring is \<open>(mean - 0.5) * 0.2\<close>, where \<open>mean\<close> is
  the mean score of the recorded matches with the types of the need and the capability:
  it is positive only when that mean is above 0.5. After recording successful outcomes on
  a matcher without history, where the recorded matches of the pair of types are good
  matches (each has a score of at least 0.6), a need and a capability of that pair of
  types, with a proficiency and weights between 0 and 1, score strictly higher than with
  the empty history.
\<close>

theorem learning_raises_score:
  "match_history (matcher s) = []
   \<and> (\<forall>oc \<in> set outcomes. snd oc)
   \<and> similar_in (map fst outcomes) nd c \<noteq> []
   \<and> (\<forall>m \<in> set (similar_in (map fst outcomes) nd c). 0.6 \<le> match_score m)
   \<and> 0 \<le> proficiency c \<and> proficiency c \<le> 1
   \<and> 0 \<le> weight_complementarity (config (matcher s))
   \<and> weight_complementarity (config (matcher s)) \<le> 1
   \<and> 0 \<le> weight_proficiency (config (matcher s))
   \<and> weight_proficiency (config (matcher s)) \<le> 1
   \<and> 0 \<le> weight_feasibility (config (matcher s))
   \<and> weight_feasibility (config (matcher s)) \<le> 1
   \<longrightarrow>
     match_score (fst (score_match py nd nup c cup prov
                         (s\<lparr>matcher := learn_all outcomes (matcher s)\<rparr>)))
       > match_score (fst (score_match py nd nup c cup prov s))"
proof (intro impI)
  assume h: "match_history (matcher s) = []
   \<and> (\<forall>oc \<in> set outcomes. snd oc)
   \<and> similar_in (map fst outcomes) nd c \<noteq> []
   \<and> (\<forall>m \<in> set (similar_in (map fst outcomes) nd c). 0.6 \<le> match_score m)
   \<and> 0 \<le> proficiency c \<and> proficiency c \<le> 1
   \<and> 0 \<le> weight_complementarity (config (matcher s))
   \<and> weight_complementarity (config (matcher s)) \<le> 1
   \<and> 0 \<le> weight_proficiency (config (matcher s))
   \<and> weight_proficiency (config (matcher s)) \<le> 1
   \<and> 0 \<le> weight_feasibility (config (matcher s))
   \<and> weight_feasibility (config (matcher s)) \<le> 1"
  then have "match_score (fst (score_match py nd nup c cup prov
                         (s\<lparr>matcher := learn_all outcomes (matcher s)\<rparr>)))
       = match_score (fst (score_match py nd nup c cup prov s))
         + 0.1 * (0.2 * (mean_score (similar_in (map fst outcomes) nd c) - 0.5))"
    by (intro score_with_history) simp_all
  moreover have "0.6 \<le> mean_score (similar_in (map fst outcomes) nd c)"
    using h by (intro mean_score_at_least) simp_all
  ultimately show "match_score (fst (score_match py nd nup c cup prov
                         (s\<lparr>matcher := learn_all outcomes (matcher s)\<rparr>)))
       > match_score (fst (score_match py nd nup c cup prov s))"
    by simp
qed

theorem learning_raises_score_witness:
  "match_history (matcher fresh) = []
   \<and> list_all snd (replicate 5 (good_match, True))
   \<and> similar_in (map fst (replicate 5 (good_match, True))) need_ros2 lidar_c
       = replicate 5 good_match
   \<and> match_score good_match = 0.69
   \<and> proficiency lidar_c = 0.5
   \<and> match_score (fst (score_match py_a need_ros2 newcomer lidar_c carol
          (create_provenance_graph py_a 0 ''batch_match'') fresh)) = 0.69
   \<and> match_score (fst (score_match py_a need_ros2 newcomer lidar_c carol
          (create_provenance_graph py_a 0 ''batch_match'') learned_good))
       > match_score (fst (score_match py_a need_ros2 newcomer lidar_c carol
          (create_provenance_graph py_a 0 ''batch_match'') fresh))"
proof -
  have sim: "similar_in (map fst (replicate 5 (good_match, True))) need_ros2 lidar_c
             = replicate 5 good_match"
    by (simp add: similar_in_def good_match_fields need_fields cap_defaults)
  have h: "match_history (matcher fresh) = []
   \<and> (\<forall>oc \<in> set (replicate 5 (good_match, True)). snd oc)
   \<and> similar_in (map fst (replicate 5 (good_match, True))) need_ros2 lidar_c \<noteq> []
   \<and> (\<forall>m \<in> set (similar_in (map fst (replicate 5 (good_match, True))) need_ros2 lidar_c).
         0.6 \<le> match_score m)
   \<and> 0 \<le> proficiency lidar_c \<and> proficiency lidar_c \<le> 1
   \<and> 0 \<le> weight_complementarity (config (matcher fresh))
   \<and> weight_complementarity (config (matcher fresh)) \<le> 1
   \<and> 0 \<le> weight_proficiency (config (matcher fresh))
   \<and> weight_proficiency (config (matcher fresh)) \<le> 1
   \<and> 0 \<le> weight_feasibility (config (matcher fresh))
   \<and> weight_feasibility (config (matcher fresh)) \<le> 1"
    unfolding sim by (simp add: fresh_fields default_weights cap_fields good_match_fields)
  have "match_score (fst (score_match py_a need_ros2 newcomer lidar_c carol
          (create_provenance_graph py_a 0 ''batch_match'') learned_good))
       > match_score (fst (score_match py_a need_ros2 newcomer lidar_c carol
          (create_provenance_graph py_a 0 ''batch_match'') fresh))"
    unfolding learned_good_def
    using h learning_raises_score [of fresh "replicate 5 (good_match, True)" need_ros2 lidar_c
        py_a newcomer carol "create_provenance_graph py_a 0 ''batch_match''"]
    by blast
  then show ?thesis
    using sim
    by (simp add: fresh_fields cap_fields good_match_score good_match_fields list_all_iff)
qed

theorem learning_lowers_score_counterexample:
  "match_score low_match = 0.45
   \<and> match_score (fst (score_match py_a need_ros2 alice lidar_c carol
                          (create_provenance_graph py_a 0 ''batch_match'') fresh)) = 0.45
   \<and> match_score (fst (score_match py_a need_ros2 alice lidar_c carol
                          (create_provenance_graph py_a 0 ''batch_match'') learned_low)) = 0.449
   \<and> \<not> match_score (fst (score_match py_a need_ros2 alice lidar_c carol
                          (create_provenance_graph py_a 0 ''batch_match'') learned_low))
        > match_score (fst (score_match py_a need_ros2 alice lidar_c carol
                          (create_provenance_graph py_a 0 ''batch_match'') fresh))"
proof -
  have "similar_in (replicate 5 low_match) need_ros2 lidar_c = replicate 5 low_match"
    by (simp add: similar_in_def example_matches need_fields cap_defaults)
  then have "apply_historical_learning (matcher learned_low) need_ros2 lidar_c = (0.45 - 0.5) * 0.2"
    by (simp add: historical_learning_closed_form learned_low_def learn_all_fields fresh_fields
        map_replicate mean_score_def example_matches sum_list_replicate)
  then have low: "match_score (fst (score_match py_a need_ros2 alice lidar_c carol g learned_low)) = 0.449" for g
    by (simp add: score_match_score similarity_examples complementarity_examples
        feasibility_examples default_weights cap_fields learned_low_def learn_all_fields fresh_fields)
  show ?thesis
    by (simp add: low example_matches example_scores fresh_fields)
qed

subsection \<open>Indexing a profile again\<close>

lemma index_get_append:
  "index_get (index_append idx k p) key = index_get idx key @ (if k = key then [p] else [])"
  by (simp add: index_append_def index_get_def)

lemma index_get_foldl:
  assumes "\<And>i x. index_get (g i x) key = index_get i key @ d x"
  shows "index_get (foldl g idx xs) key = index_get idx key @ concat (map d xs)"
  by (induction xs arbitrary: idx) (simp_all add: assms)

lemma index_get_index_capability:
  "index_get (index_capability profile idx c) key
   = index_get idx key @ postings_added_cap profile key c"
proof -
  have tags: "index_get (foldl (\<lambda>i tag. index_append i (''tag:'' @ tag) (profile, c)) i0 ts) key
        = index_get i0 key
          @ concat (map (\<lambda>tag. if ''tag:'' @ tag = key then [(profile, c)] else []) ts)" for i0 ts
    by (rule index_get_foldl) (simp add: index_get_append)
  have tokens: "index_get (foldl (\<lambda>i token. if length token > 3
                                      then index_append i (''token:'' @ token) (profile, c)
                                      else i) i0 ts) key
        = index_get i0 key
          @ concat (map (\<lambda>token. if length token > 3 \<and> ''token:'' @ token = key
                                  then [(profile, c)] else []) ts)" for i0 ts
    by (rule index_get_foldl) (simp add: index_get_append)
  show ?thesis
    unfolding index_capability_def Let_def postings_added_cap_def tokens tags index_get_append
    by (simp only: append_assoc)
qed

lemma index_get_index_user_profile:
  "index_get (capability_index (index_user_profile profile self)) key
   = index_get (capability_index self) key @ postings_added profile key"
  unfolding index_user_profile_def postings_added_def
  by (simp add: index_get_foldl [where d = "postings_added_cap profile key"]
      index_get_index_capability)

lemma index_user_profile_fields:
  "config (index_user_profile profile self) = config self"
  "match_history (index_user_profile profile self) = match_history self"
  by (simp_all add: index_user_profile_def)

lemma unique_candidates_append:
  "unique_candidates seen (ps @ qs)
   = unique_candidates seen ps @ unique_candidates (seen \<union> posting_keys ps) qs"
proof (induction ps arbitrary: seen)
  case Nil
  then show ?case by (simp add: posting_keys_def)
next
  case (Cons pc ps)
  have "insert k seen \<union> posting_keys ps = seen \<union> posting_keys (pc # ps)"
    if "k = (user_id (fst pc), capability_id (snd pc))" for k
    using that by (auto simp: posting_keys_def)
  moreover have "seen \<union> posting_keys ps = seen \<union> posting_keys (pc # ps)"
    if "(user_id (fst pc), capability_id (snd pc)) \<in> seen"
    using that by (auto simp: posting_keys_def)
  ultimately show ?case
    by (simp add: Cons.IH Let_def)
qed

lemma unique_candidates_seen:
  "posting_keys ps \<subseteq> seen \<Longrightarrow> unique_candidates seen ps = []"
  by (induction ps arbitrary: seen) (auto simp: posting_keys_def Let_def)

lemma posting_keys_append: "posting_keys (ps @ qs) = posting_keys ps \<union> posting_keys qs"
  by (auto simp: posting_keys_def)

lemma same_unique_refl: "same_unique ps ps"
  by (simp add: same_unique_def)

lemma same_unique_append:
  "same_unique ps ps' \<Longrightarrow> same_unique qs qs' \<Longrightarrow> same_unique (ps @ qs) (ps' @ qs')"
  by (simp add: same_unique_def unique_candidates_append posting_keys_append)

lemma same_unique_twice: "same_unique (ps @ qs @ qs) (ps @ qs)"
proof -
  have seen: "unique_candidates (seen \<union> posting_keys (ps @ qs)) qs = []" for seen
    by (rule unique_candidates_seen) (auto simp: posting_keys_append)
  have "unique_candidates seen ((ps @ qs) @ qs) = unique_candidates seen (ps @ qs)" for seen
    by (simp only: unique_candidates_append [of seen "ps @ qs" qs] seen append_Nil2)
  moreover have "posting_keys ((ps @ qs) @ qs) = posting_keys (ps @ qs)"
    by (auto simp: posting_keys_append)
  ultimately show ?thesis
    unfolding same_unique_def append_assoc by blast
qed

lemma same_unique_foldl:
  assumes "same_unique acc acc'" "\<And>x. same_unique (h x) (h' x)"
  shows "same_unique (foldl (\<lambda>cs x. if P x then cs @ h x else cs) acc xs)
                     (foldl (\<lambda>cs x. if P x then cs @ h' x else cs) acc' xs)"
  using assms(1)
  by (induction xs arbitrary: acc acc') (simp_all add: same_unique_append assms(2))

lemma gather_candidates_twice:
  "same_unique
     (gather_candidates (capability_index (index_user_profile profile
                           (index_user_profile profile self))) nd)
     (gather_candidates (capability_index (index_user_profile profile self)) nd)"
proof -
  let ?i1 = "capability_index (index_user_profile profile self)"
  let ?i2 = "capability_index (index_user_profile profile (index_user_profile profile self))"
  have key: "same_unique (index_get ?i2 k) (index_get ?i1 k)" for k
    unfolding index_get_index_user_profile append_assoc by (rule same_unique_twice)
  have tags: "same_unique
                (foldl (\<lambda>cs tag. cs @ index_get ?i2 (''tag:'' @ tag)) a ts)
                (foldl (\<lambda>cs tag. cs @ index_get ?i1 (''tag:'' @ tag)) a' ts)"
    if "same_unique a a'" for a a' ts
    using same_unique_foldl [where P = "\<lambda>x. True", OF that, of "\<lambda>tag. index_get ?i2 (''tag:'' @ tag)"
        "\<lambda>tag. index_get ?i1 (''tag:'' @ tag)" ts] key
    by simp
  have tokens: "same_unique
                (foldl (\<lambda>cs token. if length token > 3 then cs @ index_get ?i2 (''token:'' @ token)
                                     else cs) a ts)
                (foldl (\<lambda>cs token. if length token > 3 then cs @ index_get ?i1 (''token:'' @ token)
                                     else cs) a' ts)"
    if "same_unique a a'" for a a' ts
    using that key by (intro same_unique_foldl) simp_all
  show ?thesis
    unfolding gather_candidates_def Let_def
    by (intro tokens tags key)
qed

lemma retrieve_candidates_twice:
  assumes "capability_index (matcher s2)
           = capability_index (index_user_profile profile (index_user_profile profile self))"
    and "capability_index (matcher s1) = capability_index (index_user_profile profile self)"
  shows "fst (fst (retrieve_candidates py nd nup prov s2))
         = fst (fst (retrieve_candidates py nd nup prov' s1))"
  using gather_candidates_twice [of profile self nd] assms
  by (simp add: retrieve_candidates_def Let_def same_unique_def)

lemma score_match_cong:
  assumes "config (matcher s) = config (matcher s')"
    "match_history (matcher s) = match_history (matcher s')" "built s = built s'"
  shows "fst (score_match py nd nup c cup prov s) = fst (score_match py nd nup c cup prov' s')"
  using assms
  by (simp add: score_match_def Let_def apply_historical_learning_def compute_confidence_def
      identify_uncertainties_def)

lemma scored_in_order_cong:
  assumes "config (matcher s) = config (matcher s')"
    "match_history (matcher s) = match_history (matcher s')" "built s = built s'"
  shows "scored_in_order py nd nup prov cands s = scored_in_order py nd nup prov' cands s'"
  using assms
proof (induction cands arbitrary: s s')
  case Nil
  then show ?case by simp
next
  case (Cons pc rest)
  have "fst (score_match py nd nup (snd pc) (fst pc) prov s)
        = fst (score_match py nd nup (snd pc) (fst pc) prov' s')"
    using Cons.prems by (rule score_match_cong)
  moreover have "scored_in_order py nd nup prov rest (s\<lparr>built := built s + 6\<rparr>)
        = scored_in_order py nd nup prov' rest (s'\<lparr>built := built s' + 6\<rparr>)"
    using Cons.prems by (intro Cons.IH) simp_all
  ultimately show ?case
    by (simp add: score_match_snd)
qed

lemma scored_candidates_cong:
  assumes "config (matcher s) = config (matcher s')"
    and "match_history (matcher s) = match_history (matcher s')"
    and "built s = built s'"
    and cands: "fst (fst (retrieve_candidates py nd nup
                       (create_provenance_graph py (built s) ''capability_match'')
                       (s\<lparr>built := built s + 1\<rparr>)))
          = fst (fst (retrieve_candidates py nd nup
                       (create_provenance_graph py (built s') ''capability_match'')
                       (s'\<lparr>built := built s' + 1\<rparr>)))"
  shows "scored_candidates py nd nup s = scored_candidates py nd nup s'"
  unfolding scored_candidates_def Let_def cands
  by (rule scored_in_order_cong) (simp_all add: retrieve_candidates_snd assms(1-3))

text \<open>
  C5, as the code has it. Indexing a profile appends its postings under every applicable
  key, so indexing it a second time appends them once more: the index is not the one
  after the first indexing. What stays the same is what is read through retrieval, which
  removes duplicates by \<open>(user_id, capability_id)\<close>: the candidates retrieved for a need,
  and the matches \<open>find_matches\<close> returns, are the same after indexing a profile twice as
  after indexing it once.
\<close>

theorem index_twice:
  "index_get (capability_index (index_user_profile profile (index_user_profile profile self))) key
     = index_get (capability_index (index_user_profile profile self)) key
       @ postings_added profile key
   \<and> fst (fst (retrieve_candidates py nd need_user_profile prov
               (s\<lparr>matcher := index_user_profile profile (index_user_profile profile (matcher s))\<rparr>)))
     = fst (fst (retrieve_candidates py nd need_user_profile prov
               (s\<lparr>matcher := index_user_profile profile (matcher s)\<rparr>)))
   \<and> fst (find_matches py nd need_user_profile max_results
               (s\<lparr>matcher := index_user_profile profile (index_user_profile profile (matcher s))\<rparr>))
     = fst (find_matches py nd need_user_profile max_results
               (s\<lparr>matcher := index_user_profile profile (matcher s)\<rparr>))"
proof (intro conjI)
  let ?s1 = "s\<lparr>matcher := index_user_profile profile (matcher s)\<rparr>"
  let ?s2 = "s\<lparr>matcher := index_user_profile profile (index_user_profile profile (matcher s))\<rparr>"
  show "index_get (capability_index (index_user_profile profile (index_user_profile profile self))) key
     = index_get (capability_index (index_user_profile profile self)) key
       @ postings_added profile key"
    by (rule index_get_index_user_profile)
  show "fst (fst (retrieve_candidates py nd need_user_profile prov ?s2))
        = fst (fst (retrieve_candidates py nd need_user_profile prov ?s1))"
    by (rule retrieve_candidates_twice [where self = "matcher s"]) simp_all
  have "scored_candidates py nd need_user_profile ?s2 = scored_candidates py nd need_user_profile ?s1"
  proof (rule scored_candidates_cong)
    show "fst (fst (retrieve_candidates py nd need_user_profile
                       (create_provenance_graph py (built ?s2) ''capability_match'')
                       (?s2\<lparr>built := built ?s2 + 1\<rparr>)))
          = fst (fst (retrieve_candidates py nd need_user_profile
                       (create_provenance_graph py (built ?s1) ''capability_match'')
                       (?s1\<lparr>built := built ?s1 + 1\<rparr>)))"
      by (rule retrieve_candidates_twice [where self = "matcher s"]) simp_all
  qed (simp_all add: index_user_profile_fields)
  then show "fst (find_matches py nd need_user_profile max_results ?s2)
        = fst (find_matches py nd need_user_profile max_results ?s1)"
    by (simp add: find_matches_fst index_user_profile_fields)
qed

lemma example_capabilities:
  "capabilities alice = [lidar_a]" "capabilities bob = [ros2_b]" "capabilities carol = [lidar_c]"
  "capabilities dave = [ros2_d]" "capabilities eve = [lidar_e]" "capabilities newcomer = []"
  by (simp_all add: profile_defs profile_fields)

theorem index_twice_counterexample:
  "index_user_profile bob (index_user_profile bob (new_matcher default_config))
   \<noteq> index_user_profile bob (new_matcher default_config)"
proof
  assume eq: "index_user_profile bob (index_user_profile bob (new_matcher default_config))
              = index_user_profile bob (new_matcher default_config)"
  have added: "postings_added bob ''type:skill'' = [(bob, ros2_b)]"
    by (simp add: postings_added_def postings_added_cap_def example_capabilities cap_defaults
        cap_fields split_examples)
  have none: "index_get (capability_index (new_matcher default_config)) ''type:skill'' = []"
    by (simp add: new_matcher_def index_get_def)
  have "index_get (capability_index (index_user_profile bob (index_user_profile bob
                     (new_matcher default_config)))) ''type:skill''
        = [(bob, ros2_b), (bob, ros2_b)]"
    by (simp add: index_get_index_user_profile added none)
  moreover have "index_get (capability_index (index_user_profile bob
                     (new_matcher default_config))) ''type:skill''
        = [(bob, ros2_b)]"
    by (simp add: index_get_index_user_profile added none)
  ultimately show False
    using eq by simp
qed

subsection \<open>The confidence of the similarity step\<close>





text \<open>With an embedding of the need the step is built with the confidence 0.9, but a
  match is returned only for an embedding of dimension one: for any other dimension the
  truth test of the array at the end of the scoring raises.\<close>

lemma sem_score_match_embedding:
  assumes "sem_score_match py self k nd nup c cup (Some e) prov = Returns m"
  shows "similarity_confidence m = Some 0.9 \<and> length e = 1"
  using assms
  by (auto simp: sem_score_match_def Let_def similarity_confidence_def add_step_def
      new_step_def create_provenance_graph_def not_array_def
      split: sum.splits option.splits if_splits)

lemma sem_score_match_raises:
  "length e \<noteq> 1 \<Longrightarrow> sem_score_match py self k nd nup c cup (Some e) prov = Raises ValueError"
  by (cases "embed_capability self c")
     (auto simp: sem_score_match_def Let_def not_array_def cosine_similarity_def)

lemma sem_score_match_raises_example:
  "sem_score_match py_a sem_embedding 0 need_ros2 alice ros2_b bob (Some [1, 0])
     (create_provenance_graph py_a 0 ''semantic_capability_match'') = Raises ValueError"
  by (rule sem_score_match_raises) simp




end
